theory Spec2Isabelle
  imports Main "HOL-Library.Word"
begin

section \<open>JavaScript values shared by the modules\<close>

text \<open>
  Errors the embedded code can raise, as values. A function that can throw returns
  \<open>js_error + 'a\<close>, with \<open>Inl\<close> for the exception.
\<close>

datatype js_error = TypeError | RangeError | URIError | FileNotFound | ConfigurationNotFound

section \<open>The host tree (the module that defines class HostTree)\<close>

text \<open>
  \<open>minimatch\<close> is an external library: the glob matcher is a parameter
  \<open>mm path pattern\<close> of the two factories that use it.
\<close>

fun makeFSOFilter :: "(string \<Rightarrow> string \<Rightarrow> bool) \<Rightarrow> string list \<Rightarrow> string \<Rightarrow> bool" where
  "makeFSOFilter mm [] path = True"
| "makeFSOFilter mm (ignore # ignorePattern) path =
     (if mm path ignore then False else makeFSOFilter mm ignorePattern path)"

text \<open>\<open>Object.entries\<close> walks the record in insertion order: an association list.\<close>

fun makeFilePathClassifier ::
  "(string \<Rightarrow> string \<Rightarrow> bool) \<Rightarrow> (string \<times> string) list \<Rightarrow> string \<Rightarrow> string option" where
  "makeFilePathClassifier mm [] path = None"
| "makeFilePathClassifier mm ((pattern, type) # patterns) path =
     (if mm path pattern then Some type else makeFilePathClassifier mm patterns path)"

text \<open>The options of the constructor; the optional logger is left out.\<close>

record HostTreeOptions =
  root :: string
  name :: string
  pattern2FileType :: "(string \<times> string) list"
  ignorePattern :: "string list"

text \<open>
  The fields of a \<open>HostTree\<close>. \<open>fileTree\<close> is declared without an initialiser and the
  constructor does not assign it: it is \<open>undefined\<close> (\<open>None\<close>) until
  \<open>rebuildFileTree\<close> stores a tree. The tree class itself (\<open>LocalFileTree\<close>) is
  declared in another module; it is the type parameter \<open>'t\<close>.
\<close>

record 't HostTree =
  ht_root :: string
  fileTree :: "'t option"
  filePathClassifier :: "string \<Rightarrow> string option"
  fileFilter :: "string \<Rightarrow> bool"

definition HostTree_constructor ::
  "(string \<Rightarrow> string \<Rightarrow> bool) \<Rightarrow> HostTreeOptions \<Rightarrow> 't HostTree" where
  "HostTree_constructor mm options =
     \<lparr> ht_root = root options,
       fileTree = None,
       filePathClassifier = makeFilePathClassifier mm (pattern2FileType options),
       fileFilter = makeFSOFilter mm (ignorePattern options) \<rparr>"

text \<open>
  \<open>rebuildFileTree\<close> scans the directory (\<open>createFileTreeFrom\<close>, file-system I/O) and
  stores the result; the scanned tree is the argument \<open>tree\<close> here.
\<close>

definition rebuildFileTree :: "'t HostTree \<Rightarrow> 't \<Rightarrow> 't HostTree" where
  "rebuildFileTree ht tree = ht\<lparr>fileTree := Some tree\<rparr>"

text \<open>
  \<open>resolveFile(pathParts) { return this.fileTree?.resolveFile(pathParts) }\<close>.
  The optional chain yields \<open>undefined\<close> (\<open>Inr None\<close>) when the receiver is unset and
  calls the tree's own method otherwise; that method, \<open>treeResolve\<close>, lives in another
  module and may return a file, \<open>null\<close> or throw.
\<close>

definition HostTree_resolveFile ::
  "('t \<Rightarrow> string list \<Rightarrow> js_error + 'f option) \<Rightarrow> 't HostTree \<Rightarrow> string list
     \<Rightarrow> js_error + 'f option" where
  "HostTree_resolveFile treeResolve ht pathParts =
     (case fileTree ht of
        None \<Rightarrow> Inr None
      | Some t \<Rightarrow> treeResolve t pathParts)"

section \<open>Bubble messages and the batch string writer (netx.ts)\<close>

subsection \<open>Bubble hook\<close>

text \<open>
  The message a read hook receives: \<open>{ type, id, data, header }\<close>. Of the enum
  \<open>MessageType\<close> the source names only \<open>object\<close>; every other member is
  \<open>not_object\<close>. \<open>header\<close> is optional.
\<close>

datatype MessageType = object | not_object

record 'd Message =
  msg_type :: MessageType
  msg_id :: string
  msg_data :: 'd
  msg_header :: "string list option"

text \<open>
  What a hook does, in order: \<open>Send id data header\<close> is the call
  \<open>this.send(id, data, header)\<close> on the \<open>Net\<close> the hook was registered on,
  \<open>Handle id data\<close> the call of the local handler.
\<close>

datatype 'd net_effect = Send string 'd "string list" | Handle string 'd

definition startsWith :: "string \<Rightarrow> string \<Rightarrow> bool" where
  "startsWith str prefix = (take (length prefix) str = prefix)"

definition removePrefix :: "string \<Rightarrow> string \<Rightarrow> string" where
  "removePrefix str prefix = (if startsWith str prefix then drop (length prefix) str else str)"

definition sendBubble :: "string \<Rightarrow> string \<Rightarrow> 'd \<Rightarrow> 'd net_effect" where
  "sendBubble ident nodeId dat = Send (''[bubble]'' @ ident) dat [nodeId]"

text \<open>
  The read hook that \<open>addBubbleHook(nodeId, handler)\<close> registers. Calling
  \<open>includes\<close> on a missing header throws a \<open>TypeError\<close>.
\<close>

definition bubbleHook :: "string \<Rightarrow> 'd Message \<Rightarrow> js_error + 'd net_effect list" where
  "bubbleHook nodeId m =
     (if msg_type m \<noteq> object then Inr []
      else if \<not> startsWith (msg_id m) ''[bubble]'' then Inr []
      else case msg_header m of
        None \<Rightarrow> Inl TypeError
      | Some nodeIds \<Rightarrow>
          if nodeId \<in> set nodeIds then Inr []
          else Inr [Send (msg_id m) (msg_data m) (nodeIds @ [nodeId]),
                    Handle (removePrefix (msg_id m) ''[bubble]'') (msg_data m)])"

subsection \<open>Nets between nodes\<close>

text \<open>
  Modelled from the spec: class \<open>Net\<close> (net.js: \<open>send\<close>, \<open>addReadHook\<close>) is not
  among the sources. Following the spec's Link and Message ("Send(message): encrypts and
  frames the message, writes it"; "on each decoded inbound message, routes by type";
  "within a single Link, messages are delivered in send order"), a \<open>Net\<close> is one
  connection to one peer: \<open>send(id, data, header)\<close> delivers the plain-object message
  below to the peer's end of the same connection, whose read hooks then run on it.
\<close>

definition sent_message :: "string \<Rightarrow> 'd \<Rightarrow> string list \<Rightarrow> 'd Message" where
  "sent_message ident dat hdr =
     \<lparr> msg_type = object, msg_id = ident, msg_data = dat, msg_header = Some hdr \<rparr>"

fun sends_of :: "'d net_effect list \<Rightarrow> 'd Message list" where
  "sends_of [] = []"
| "sends_of (Send i d h # es) = sent_message i d h # sends_of es"
| "sends_of (Handle i d # es) = sends_of es"

fun handles_of :: "'d net_effect list \<Rightarrow> (string \<times> 'd) list" where
  "handles_of [] = []"
| "handles_of (Send i d h # es) = handles_of es"
| "handles_of (Handle i d # es) = (i, d) # handles_of es"

text \<open>
  Modelled from the spec: a node with several Links holds one \<open>Net\<close> per Link, each
  with the bubble hook registered on it. A message read from Link \<open>arrival\<close> runs the
  hook of that Link's \<open>Net\<close>, and the hook's \<open>this.send\<close> writes to that same
  \<open>Net\<close>. The result lists the messages the node writes, each with the Link written
  to, and the handler calls.
\<close>

definition node_receive ::
  "string \<Rightarrow> nat \<Rightarrow> 'd Message \<Rightarrow> js_error + ((nat \<times> 'd Message) list \<times> (string \<times> 'd) list)" where
  "node_receive nodeId arrival m =
     (case bubbleHook nodeId m of
        Inl e \<Rightarrow> Inl e
      | Inr es \<Rightarrow> Inr (map (\<lambda>out. (arrival, out)) (sends_of es), handles_of es))"

text \<open>
  The forwarding rule in the spec's words (section 4.3, step 3): every Link except the
  one the message arrived on.
\<close>

definition forward_links_spec :: "nat list \<Rightarrow> nat \<Rightarrow> nat list" where
  "forward_links_spec links arrival = filter (\<lambda>l. l \<noteq> arrival) links"

text \<open>
  Modelled from the spec: two nodes \<open>a\<close> and \<open>b\<close> joined by one connection, each
  with a bubble hook on its end. \<open>inflight\<close> holds the messages on the wire with the
  node that will read them, oldest first; \<open>handled\<close> logs every handler call as
  (node, id, data).
\<close>

record 'd world =
  inflight :: "(string \<times> 'd Message) list"
  handled :: "(string \<times> string \<times> 'd) list"

definition peer :: "string \<Rightarrow> string \<Rightarrow> string \<Rightarrow> string" where
  "peer a b n = (if n = a then b else a)"

text \<open>
  \<open>run k\<close> delivers messages until the wire is empty; \<open>None\<close> means that \<open>k\<close>
  deliveries did not empty it.
\<close>

fun run :: "nat \<Rightarrow> string \<Rightarrow> string \<Rightarrow> 'd world \<Rightarrow> (js_error + 'd world) option" where
  "run k a b w =
     (case inflight w of
        [] \<Rightarrow> Some (Inr w)
      | (n, m) # rest \<Rightarrow>
          (case k of
             0 \<Rightarrow> None
           | Suc k' \<Rightarrow>
               (case bubbleHook n m of
                  Inl e \<Rightarrow> Some (Inl e)
                | Inr es \<Rightarrow>
                    run k' a b
                      \<lparr> inflight = rest @ map (\<lambda>out. (peer a b n, out)) (sends_of es),
                        handled = handled w @ map (\<lambda>(i, d). (n, i, d)) (handles_of es) \<rparr>)))"

text \<open>Node \<open>a\<close> calls \<open>net.sendBubble(id, a, data)\<close>: one message on the wire to \<open>b\<close>.\<close>

definition bubble_from :: "string \<Rightarrow> string \<Rightarrow> string \<Rightarrow> 'd \<Rightarrow> 'd world" where
  "bubble_from a b ident dat =
     \<lparr> inflight = map (\<lambda>out. (b, out)) (sends_of [sendBubble ident a dat]), handled = [] \<rparr>"

subsection \<open>Batch string writer\<close>

text \<open>
  A \<open>BufferWriter\<close> holds a byte array \<open>backend\<close> and a \<open>cursor\<close>, the offset of
  the next write. A string value is represented by its UTF-8 bytes, one \<open>char\<close> per
  byte, so \<open>Buffer.byteLength(value, "utf8")\<close> is the length of the list.
\<close>

type_synonym byte = "8 word"

record BufferWriter =
  backend :: "byte list"
  cursor :: nat

definition utf8 :: "string \<Rightarrow> byte list" where
  "utf8 v = map of_char v"

definition byteLength :: "string \<Rightarrow> nat" where
  "byteLength v = length (utf8 v)"

text \<open>
  Modelled from the spec: \<open>ensureCapacity\<close> belongs to the \<open>BufferWriter\<close> class
  (buffer.js), which is not among the sources. The spec only has the codec write a frame
  as consecutive bytes; by its name and its use here the call is taken to grow
  \<open>backend\<close> with zero bytes until \<open>n\<close> more bytes fit at the cursor, keeping what
  is there.
\<close>

definition ensureCapacity :: "BufferWriter \<Rightarrow> nat \<Rightarrow> BufferWriter" where
  "ensureCapacity w n =
     (if cursor w + n \<le> length (backend w) then w
      else w\<lparr>backend := backend w @ replicate (cursor w + n - length (backend w)) 0\<rparr>)"

text \<open>
  Node's \<open>buf.writeInt32BE(value, offset)\<close>: four bytes, most significant first, two's
  complement; a \<open>RangeError\<close> when the value is no 32-bit signed integer or the four
  bytes do not fit.
\<close>

definition int32BE :: "int \<Rightarrow> byte list" where
  "int32BE v = [word_of_int (v div 16777216), word_of_int (v div 65536),
                word_of_int (v div 256), word_of_int v]"

definition writeInt32BE :: "byte list \<Rightarrow> int \<Rightarrow> nat \<Rightarrow> js_error + byte list" where
  "writeInt32BE buf v offset =
     (if v < - 2147483648 \<or> 2147483647 < v \<or> length buf < offset + 4 then Inl RangeError
      else Inr (take offset buf @ int32BE v @ drop (offset + 4) buf))"

text \<open>
  Node's \<open>buf.write(string, offset, length, encoding)\<close>: a \<open>RangeError\<close> when
  \<open>offset\<close> or \<open>length\<close> exceeds the size of the buffer; otherwise it writes at
  most \<open>length\<close> bytes of the string and never past the end of the buffer.
\<close>

definition buffer_write :: "byte list \<Rightarrow> string \<Rightarrow> nat \<Rightarrow> nat \<Rightarrow> js_error + byte list" where
  "buffer_write buf v offset len =
     (if length buf < offset \<or> length buf < len then Inl RangeError
      else let n = min len (min (length (utf8 v)) (length buf - offset))
           in Inr (take offset buf @ take n (utf8 v) @ drop (offset + n) buf))"

text \<open>
  \<open>BufferWriter.prototype.strings(writing, encoding = "utf8")\<close>. The callback
  \<open>writing\<close> calls \<open>write(value)\<close> once per string; it is given as the list of those
  values. \<open>collect\<close> is the body of \<open>write\<close> run over them (push and add to
  \<open>totalLength\<close>), \<open>write_each\<close> the final \<open>for\<close> loop.
\<close>

fun collect :: "string list \<Rightarrow> (string \<times> nat) list \<times> nat \<Rightarrow> (string \<times> nat) list \<times> nat" where
  "collect [] acc = acc"
| "collect (v # vs) (strs, totalLength) =
     collect vs (strs @ [(v, byteLength v)], totalLength + byteLength v)"

fun write_each :: "(string \<times> nat) list \<Rightarrow> BufferWriter \<Rightarrow> js_error + BufferWriter" where
  "write_each [] w = Inr w"
| "write_each ((v, len) # rest) w =
     (case buffer_write (backend w) v (cursor w) len of
        Inl e \<Rightarrow> Inl e
      | Inr b \<Rightarrow> write_each rest (w\<lparr>backend := b, cursor := cursor w + len\<rparr>))"

definition strings :: "string list \<Rightarrow> BufferWriter \<Rightarrow> js_error + BufferWriter" where
  "strings writing w =
     (case collect writing ([], 0) of (strs, totalLength) \<Rightarrow>
        (let w1 = ensureCapacity w (totalLength + 4) in
         (case writeInt32BE (backend w1) (int totalLength) (cursor w1) of
            Inl e \<Rightarrow> Inl e
          | Inr b \<Rightarrow> write_each strs (w1\<lparr>backend := b, cursor := cursor w1 + 4\<rparr>))))"

text \<open>The bytes a call wrote: from the cursor before it to the cursor after it.\<close>

definition written :: "BufferWriter \<Rightarrow> BufferWriter \<Rightarrow> byte list" where
  "written w w' = drop (cursor w) (take (cursor w') (backend w'))"

text \<open>
  The frame in the spec's words (section 4.1): every string field carries its own 4-byte
  big-endian length, followed by its UTF-8 bytes.
\<close>

definition frame_spec :: "string list \<Rightarrow> byte list" where
  "frame_spec vs = concat (map (\<lambda>v. int32BE (int (byteLength v)) @ utf8 v) vs)"

text \<open>
  Modelled from the spec: the reading side (the \<open>BufferReader\<close> of buffer.js) is not
  among the sources. Section 4.1: "callers decode by first reading a length prefix, then
  consuming exactly that many bytes". \<open>readString\<close> returns the bytes of one
  length-prefixed string and the rest of the input, \<open>None\<close> on a truncated frame.
\<close>

definition readInt32BE :: "byte list \<Rightarrow> (int \<times> byte list) option" where
  "readInt32BE bs =
     (case bs of
        b3 # b2 # b1 # b0 # rest \<Rightarrow>
          let u = uint b3 * 16777216 + uint b2 * 65536 + uint b1 * 256 + uint b0
          in Some (if 2147483648 \<le> u then u - 4294967296 else u, rest)
      | _ \<Rightarrow> None)"

definition readString :: "byte list \<Rightarrow> (byte list \<times> byte list) option" where
  "readString bs =
     (case readInt32BE bs of
        None \<Rightarrow> None
      | Some (n, rest) \<Rightarrow>
          if n < 0 \<or> int (length rest) < n then None
          else Some (take (nat n) rest, drop (nat n) rest))"

section \<open>The HTTP file endpoint (server.ts and its later revision)\<close>

subsection \<open>Numbers, strings and the Range header\<close>

text \<open>
  A JavaScript number as far as this code meets it: an integer that a double represents
  exactly, \<open>NaN\<close> or an infinity. \<open>to_double\<close> rounds an integer to the nearest
  double, ties to the even mantissa, and to an infinity from \<open>2^1024\<close> on: integers
  up to \<open>2^53\<close> are kept, larger ones keep 53 significant bits. The results of
  \<open>parseInt\<close>, of \<open>+\<close> and of \<open>-\<close> on integers are such roundings.
  \<open>to_number\<close> is the conversion arithmetic applies to a value that may be
  \<open>undefined\<close>.
\<close>

datatype jsnum = Num int | NaN | PosInf | NegInf

fun bit_length :: "nat \<Rightarrow> nat" where
  "bit_length n = (if n = 0 then 0 else Suc (bit_length (n div 2)))"

declare bit_length.simps [simp del]

definition round_nat :: "nat \<Rightarrow> nat option" where
  "round_nat m =
     (if m \<le> 9007199254740992 then Some m
      else let k = bit_length m - 53;
               q = m div 2 ^ k;
               r = m mod 2 ^ k;
               h = 2 ^ (k - 1);
               q' = (if h < r \<or> (r = h \<and> odd q) then q + 1 else q)
           in if 2 ^ 1024 \<le> q' * 2 ^ k then None else Some (q' * 2 ^ k))"

definition to_double :: "int \<Rightarrow> jsnum" where
  "to_double n =
     (case round_nat (nat \<bar>n\<bar>) of
        None \<Rightarrow> (if n < 0 then NegInf else PosInf)
      | Some v \<Rightarrow> Num (if n < 0 then - int v else int v))"

definition to_number :: "jsnum option \<Rightarrow> jsnum" where
  "to_number v = (case v of None \<Rightarrow> NaN | Some n \<Rightarrow> n)"

fun jsnum_add :: "jsnum \<Rightarrow> jsnum \<Rightarrow> jsnum" where
  "jsnum_add (Num a) (Num b) = to_double (a + b)"
| "jsnum_add NaN _ = NaN"
| "jsnum_add _ NaN = NaN"
| "jsnum_add PosInf NegInf = NaN"
| "jsnum_add NegInf PosInf = NaN"
| "jsnum_add PosInf _ = PosInf"
| "jsnum_add _ PosInf = PosInf"
| "jsnum_add NegInf _ = NegInf"
| "jsnum_add _ NegInf = NegInf"

fun jsnum_neg :: "jsnum \<Rightarrow> jsnum" where
  "jsnum_neg (Num a) = Num (- a)"
| "jsnum_neg NaN = NaN"
| "jsnum_neg PosInf = NegInf"
| "jsnum_neg NegInf = PosInf"

definition jsnum_sub :: "jsnum \<Rightarrow> jsnum \<Rightarrow> jsnum" where
  "jsnum_sub a b = jsnum_add a (jsnum_neg b)"

text \<open>\<open>x ??= d\<close>: the value afterwards, which is never \<open>undefined\<close>.\<close>

definition nullish_assign :: "'a option \<Rightarrow> 'a \<Rightarrow> 'a option" where
  "nullish_assign x d = (case x of None \<Rightarrow> Some d | Some v \<Rightarrow> Some v)"

text \<open>Truthiness of an optional string: \<open>undefined\<close> and the empty string are falsy.\<close>

definition truthy :: "string option \<Rightarrow> bool" where
  "truthy s = (case s of None \<Rightarrow> False | Some v \<Rightarrow> v \<noteq> [])"

definition endsWith :: "string \<Rightarrow> string \<Rightarrow> bool" where
  "endsWith str suffix = (drop (length str - length suffix) str = suffix)"

definition removeSuffix :: "string \<Rightarrow> string \<Rightarrow> string" where
  "removeSuffix origin suffix =
     (if endsWith origin suffix then take (length origin - length suffix) origin else origin)"

text \<open>\<open>str.split(sep)\<close> for a one-character separator: at least one part.\<close>

fun split :: "string \<Rightarrow> char \<Rightarrow> string list" where
  "split [] sep = [[]]"
| "split (c # cs) sep =
     (if c = sep then [] # split cs sep
      else case split cs sep of p # ps \<Rightarrow> (c # p) # ps | [] \<Rightarrow> [[c]])"

text \<open>
  A header value reaches the code as a string of code units below 256 (Node decodes the
  bytes of a header as Latin-1), one \<open>char\<close> each. Of the white space and line
  terminators that \<open>trim\<close> and \<open>parseInt\<close> strip, these are the ones below 256:
  tab, line feed, VT, FF, CR, space and the no-break space.
\<close>

definition is_space :: "char \<Rightarrow> bool" where
  "is_space c =
     (c \<in> set [CHR 0x09, CHR 0x0A, CHR 0x0B, CHR 0x0C, CHR 0x0D, CHR 0x20, CHR 0xA0])"

definition trim :: "string \<Rightarrow> string" where
  "trim s = rev (dropWhile is_space (rev (dropWhile is_space s)))"

text \<open>
  The builtin \<open>parseInt(string)\<close> without a radix: leading white space, an optional
  sign, an optional \<open>0x\<close>, then the longest run of digits; \<open>NaN\<close> without a digit,
  otherwise the double nearest to the integer the digits denote.
\<close>

definition digit_of :: "char \<Rightarrow> nat option" where
  "digit_of c =
     (let n = (of_char c :: nat) in
      if 48 \<le> n \<and> n \<le> 57 then Some (n - 48)
      else if 97 \<le> n \<and> n \<le> 122 then Some (n - 87)
      else if 65 \<le> n \<and> n \<le> 90 then Some (n - 55)
      else None)"

fun parse_digits :: "nat \<Rightarrow> string \<Rightarrow> nat option \<Rightarrow> nat option" where
  "parse_digits radix [] acc = acc"
| "parse_digits radix (c # cs) acc =
     (case digit_of c of
        None \<Rightarrow> acc
      | Some d \<Rightarrow>
          if d < radix
          then parse_digits radix cs (Some ((case acc of None \<Rightarrow> 0 | Some a \<Rightarrow> a * radix) + d))
          else acc)"

definition parseInt :: "string \<Rightarrow> jsnum" where
  "parseInt s =
     (let t = dropWhile is_space s;
          neg = (take 1 t = ''-'');
          u = (if take 1 t = ''-'' \<or> take 1 t = ''+'' then drop 1 t else t);
          hex = (take 2 u = ''0x'' \<or> take 2 u = ''0X'')
      in case parse_digits (if hex then 16 else 10) (if hex then drop 2 u else u) None of
           None \<Rightarrow> NaN
         | Some n \<Rightarrow> to_double (if neg then - int n else int n))"

definition resolveRange :: "string option \<Rightarrow> jsnum option \<times> jsnum option" where
  "resolveRange rangeHeader =
     (if \<not> truthy rangeHeader then (None, None)
      else case rangeHeader of
        None \<Rightarrow> (None, None)
      | Some r \<Rightarrow>
          if startsWith r ''bytes='' then
            (case split (removePrefix r ''bytes='') (CHR ''-'') of
               [p0, p1] \<Rightarrow>
                 (let rangeStart = trim p0; rangeEnd = trim p1 in
                  (if rangeStart \<noteq> [] then Some (parseInt rangeStart) else None,
                   if rangeEnd \<noteq> [] then Some (parseInt rangeEnd) else None))
             | _ \<Rightarrow> (None, None))
          else (None, None))"


subsection \<open>Files, requests and responses\<close>

text \<open>
  The JSON form of a tree entry as the server reads it: \<open>"*type"\<close> (present on
  files only) and \<open>size\<close>. A \<open>ResolvedFile\<close> wraps it as \<open>inner\<close>; server.ts also
  reads \<open>file.type\<close> and \<open>file.size\<close> of the wrapper. The class is declared in
  file.js, not among the sources; the fields the server reads are kept, and the origin
  the spec gives a resolved file (a local path or the owning node's name).
\<close>

record FileJson =
  star_type :: "string option"
  json_size :: "jsnum option"

datatype origin = Local string | Remote string

record ResolvedFile =
  inner :: "FileJson option"
  file_type :: "string option"
  file_size :: "jsnum option"
  origin :: origin

record Request =
  url :: string
  range_header :: "string option"

text \<open>
  What opening a stream can give: \<open>undefined\<close>, \<open>null\<close>, a readable stream that
  delivers bytes, or one that emits \<open>error\<close>. A thrown exception is the \<open>Inl\<close> of
  the result. The options are \<open>{ start, end }\<close> or absent.
\<close>

datatype read_stream = Undefined | Null | Readable "byte list" | Failing

type_synonym read_options = "(jsnum option \<times> jsnum option) option"

type_synonym stream_opener = "ResolvedFile \<Rightarrow> read_options \<Rightarrow> js_error + read_stream"

record Plugin =
  onFileRequested :: "(Request \<Rightarrow> ResolvedFile \<Rightarrow> bool) option"
  onNodeCreateReadStream :: "stream_opener option"

datatype body = Pending | Ended | Piped "byte list" | SentStatus | SentJson string

record Response =
  statusCode :: nat
  contentType :: "string option"
  expires :: "int option"
  cacheControl :: "int option"
  contentLength :: "jsnum option"
  contentRange :: "(jsnum \<times> jsnum \<times> jsnum option) option"
  acceptRanges :: "string option"
  body :: body

definition new_response :: Response where
  "new_response =
     \<lparr> statusCode = 200, contentType = None, expires = None, cacheControl = None,
       contentLength = None, contentRange = None, acceptRanges = None, body = Pending \<rparr>"

text \<open>\<open>file.inner.size\<close>: a \<open>TypeError\<close> when \<open>inner\<close> is \<open>undefined\<close>.\<close>

definition inner_size :: "ResolvedFile \<Rightarrow> js_error + jsnum option" where
  "inner_size file = (case inner file of None \<Rightarrow> Inl TypeError | Some i \<Rightarrow> Inr (json_size i))"

text \<open>
  The end of both versions of \<open>pipeFile\<close>: no stream gives 404 on the response as
  it stands; a stream that fails before it delivers anything gives
  \<open>res.sendStatus(500)\<close>, which sends the 21 bytes \<open>Internal Server Error\<close> as
  plain text and sets Content-Type and Content-Length for them; otherwise the stream is
  piped into the response.
\<close>

definition pipe_stream :: "read_stream \<Rightarrow> Response \<Rightarrow> Response" where
  "pipe_stream stream res =
     (case stream of
        Undefined \<Rightarrow> res\<lparr>statusCode := 404, body := Ended\<rparr>
      | Null \<Rightarrow> res\<lparr>statusCode := 404, body := Ended\<rparr>
      | Failing \<Rightarrow>
          res\<lparr>statusCode := 500, contentType := Some ''text/plain; charset=utf-8'',
              contentLength := Some (Num 21), body := SentStatus\<rparr>
      | Readable bytes \<Rightarrow> res\<lparr>body := Piped bytes\<rparr>)"

subsection \<open>The later revision of the server (the unnamed source with plugins)\<close>

text \<open>The loop over the plugins in \<open>pipeFile\<close>: the first plugin stream that is not
  \<open>undefined\<close> ends it.\<close>

fun plugin_stream ::
  "Plugin list \<Rightarrow> ResolvedFile \<Rightarrow> read_options \<Rightarrow> read_stream \<Rightarrow> js_error + read_stream" where
  "plugin_stream [] file options stream = Inr stream"
| "plugin_stream (plugin # plugins) file options stream =
     (if stream \<noteq> Undefined then Inr stream
      else case onNodeCreateReadStream plugin of
        None \<Rightarrow> plugin_stream plugins file options stream
      | Some hook \<Rightarrow>
          (case hook file options of
             Inl e \<Rightarrow> Inl e
           | Inr s \<Rightarrow> plugin_stream plugins file options s))"

text \<open>
  Lines 264 to 274: a plugin's stream if one provides it, the node's own otherwise.
\<close>

definition acquire_stream ::
  "Plugin list \<Rightarrow> stream_opener \<Rightarrow> ResolvedFile \<Rightarrow> read_options \<Rightarrow> js_error + read_stream" where
  "acquire_stream plugins createReadStream file options =
     (case plugin_stream plugins file options Undefined of
        Inl err \<Rightarrow> Inl err
      | Inr stream \<Rightarrow>
          if stream = Undefined then createReadStream file options else Inr stream)"

text \<open>
  Lines 252 to 254: the bounds after the defaults \<open>start ??= 0\<close> and
  \<open>end ??= file.inner.size - 1\<close>; the right-hand side is evaluated only when \<open>end\<close>
  is missing.
\<close>

definition range_bounds :: "Request \<Rightarrow> ResolvedFile \<Rightarrow> js_error + jsnum \<times> jsnum" where
  "range_bounds req file =
     (case resolveRange (range_header req) of (start0, end0) \<Rightarrow>
        (let start = to_number (nullish_assign start0 (Num 0)) in
         (case end0 of
            Some e \<Rightarrow> Inr (start, e)
          | None \<Rightarrow>
              (case inner_size file of
                 Inl err \<Rightarrow> Inl err
               | Inr sz \<Rightarrow> Inr (start, jsnum_sub (to_number sz) (Num 1))))))"

definition pipeFile ::
  "Plugin list \<Rightarrow> stream_opener \<Rightarrow> Request \<Rightarrow> Response \<Rightarrow> ResolvedFile \<Rightarrow> js_error + Response" where
  "pipeFile plugins createReadStream req res file =
     (case range_bounds req file of
        Inl err \<Rightarrow> Inl err
      | Inr (start, end) \<Rightarrow>
          (let retrievedLength = jsnum_sub (jsnum_add end (Num 1)) start;
               res1 = res\<lparr>statusCode := (if truthy (range_header req) then 206 else 200),
                          contentLength := Some retrievedLength\<rparr>
           in
           (case (if truthy (range_header req)
                  then (case inner_size file of
                          Inl err \<Rightarrow> Inl err
                        | Inr sz \<Rightarrow> Inr (res1\<lparr>contentRange := Some (start, end, sz),
                                               acceptRanges := Some ''bytes''\<rparr>))
                  else Inr res1) of
              Inl err \<Rightarrow> Inl err
            | Inr res2 \<Rightarrow>
                (case acquire_stream plugins createReadStream file
                        (Some (Some start, Some end)) of
                   Inl err \<Rightarrow> Inl err
                 | Inr stream \<Rightarrow> Inr (pipe_stream stream res2)))))"

text \<open>The loop \<open>for (const plugin of plugins) if (await plugin.onFileRequested?.(...))\<close>.\<close>

fun file_request_refused :: "Plugin list \<Rightarrow> Request \<Rightarrow> ResolvedFile \<Rightarrow> bool" where
  "file_request_refused [] req resolved = False"
| "file_request_refused (plugin # plugins) req resolved =
     (case onFileRequested plugin of
        None \<Rightarrow> file_request_refused plugins req resolved
      | Some hook \<Rightarrow>
          if hook req resolved then True else file_request_refused plugins req resolved)"

text \<open>\<open>resolved?.inner?.["*type"]\<close>.\<close>

definition resolved_type :: "ResolvedFile option \<Rightarrow> string option" where
  "resolved_type resolved =
     (case resolved of
        None \<Rightarrow> None
      | Some r \<Rightarrow> (case inner r of None \<Rightarrow> None | Some i \<Rightarrow> star_type i))"

text \<open>
  The handler of \<open>GET /file(/*)\<close>, the function that runs once the passcode middleware
  has let the request through. \<open>decodeURI\<close> is the builtin (it throws on a malformed
  escape), \<open>resolveFile\<close> and \<open>createReadStream\<close> are the node's methods
  (meditree.js, not among the sources), \<open>now\<close> is \<open>Date.now()\<close>.
\<close>

definition file_route ::
  "(string \<Rightarrow> js_error + string) \<Rightarrow> (string list \<Rightarrow> ResolvedFile option) \<Rightarrow> Plugin list \<Rightarrow>
   stream_opener \<Rightarrow> int \<Rightarrow> int \<Rightarrow> Request \<Rightarrow> js_error + Response" where
  "file_route decodeURI resolveFile plugins createReadStream now cacheMaxAge req =
     (case decodeURI (url req) of
        Inl e \<Rightarrow> Inr (new_response\<lparr>statusCode := 400, body := SentJson ''badURI''\<rparr>)
      | Inr uri \<Rightarrow>
          (let path = removeSuffix (removePrefix uri ''/file/'') ''/'';
               resolved = resolveFile (split path (CHR ''/''))
           in
           if \<not> truthy (resolved_type resolved)
           then Inr (new_response\<lparr>statusCode := 404, body := Ended\<rparr>)
           else
             (case resolved of
                None \<Rightarrow> Inr (new_response\<lparr>statusCode := 404, body := Ended\<rparr>)
              | Some r \<Rightarrow>
                  if file_request_refused plugins req r
                  then Inr (new_response\<lparr>statusCode := 400, body := Ended\<rparr>)
                  else pipeFile plugins createReadStream req
                         (new_response\<lparr>contentType := resolved_type resolved,
                                       expires := Some (now + cacheMaxAge),
                                       cacheControl := Some cacheMaxAge\<rparr>) r)))"

text \<open>\<open>node.subNodeFilter\<close>, with \<open>fileTypes = Object.values(config.fileType)\<close>.\<close>

definition subNodeFilter :: "string list \<Rightarrow> FileJson \<Rightarrow> bool" where
  "subNodeFilter fileTypes file =
     (if \<not> truthy (star_type file) then True
      else case star_type file of None \<Rightarrow> False | Some t \<Rightarrow> t \<in> set fileTypes)"

subsection \<open>server.ts\<close>

definition server_pipeFile ::
  "stream_opener \<Rightarrow> Request \<Rightarrow> Response \<Rightarrow> ResolvedFile \<Rightarrow> js_error + Response" where
  "server_pipeFile createReadStream req res file =
     (case inner_size file of
        Inl err \<Rightarrow> Inl err
      | Inr sz \<Rightarrow>
          if sz \<noteq> None then
            (case resolveRange (range_header req) of (start0, end0) \<Rightarrow>
              (let start = nullish_assign start0 (Num 0);
                   end = nullish_assign end0 (jsnum_sub (to_number (file_size file)) (Num 1));
                   retrievedLength =
                     jsnum_sub (jsnum_add (to_number end) (Num 1)) (to_number start);
                   res1 = res\<lparr>statusCode := (if start \<noteq> None \<or> end \<noteq> None then 206 else 200),
                              contentLength := Some retrievedLength\<rparr>;
                   res2 = (if truthy (range_header req)
                           then res1\<lparr>contentRange := Some (to_number start, to_number end, sz),
                                     acceptRanges := Some ''bytes''\<rparr>
                           else res1)
               in (case createReadStream file (Some (start, end)) of
                     Inl err \<Rightarrow> Inl err
                   | Inr stream \<Rightarrow> Inr (pipe_stream stream res2))))
          else
            (case createReadStream file None of
               Inl err \<Rightarrow> Inl err
             | Inr stream \<Rightarrow> Inr (pipe_stream stream res)))"

text \<open>
  The handler of \<open>GET /file(/*)\<close> in server.ts: \<open>decodeURI\<close> is not guarded, the
  checks are \<open>file == null\<close> and \<open>file.inner["*type"] == null\<close>.
\<close>

definition server_file_route ::
  "(string \<Rightarrow> js_error + string) \<Rightarrow> (string list \<Rightarrow> ResolvedFile option) \<Rightarrow>
   stream_opener \<Rightarrow> int \<Rightarrow> Request \<Rightarrow> js_error + Response" where
  "server_file_route decodeURI resolveFile createReadStream cacheMaxAge req =
     (case decodeURI (url req) of
        Inl e \<Rightarrow> Inl e
      | Inr uri \<Rightarrow>
          (let path = removePrefix uri ''/file/'' in
           case resolveFile (split path (CHR ''/'')) of
             None \<Rightarrow> Inr (new_response\<lparr>statusCode := 404, body := Ended\<rparr>)
           | Some file \<Rightarrow>
              (case inner file of
                 None \<Rightarrow> Inl TypeError
               | Some i \<Rightarrow>
                   (case star_type i of
                      None \<Rightarrow> Inr (new_response\<lparr>statusCode := 404, body := Ended\<rparr>)
                    | Some fileType \<Rightarrow>
                        server_pipeFile createReadStream req
                          (new_response\<lparr>contentType := file_type file,
                                        cacheControl := Some cacheMaxAge\<rparr>) file))))"

text \<open>\<open>Array.from(Object.values(config.fileType))\<close>: the values, in insertion order.\<close>

definition configured_fileTypes :: "(string \<times> string) list \<Rightarrow> string list" where
  "configured_fileTypes fileType = map snd fileType"

definition server_subNodeFilter :: "string list \<Rightarrow> FileJson \<Rightarrow> bool" where
  "server_subNodeFilter fileTypes file =
     (case star_type file of None \<Rightarrow> False | Some t \<Rightarrow> t \<in> set fileTypes)"


subsection \<open>Resolution and local streams, from the spec\<close>

text \<open>
  Modelled from the spec: the merged tree and \<open>node.resolveFile\<close> (meditree.js, file.js)
  are not among the sources. Section 3: an entry is a File (declared media type, byte
  size, origin) or a Directory (a mapping from child names to entries); the hidden flag
  and the tag metadata play no part in resolution and are left out. Section 4.5:
  \<open>resolve\<close> "walks the MergedTree segment by segment; each segment must match a
  Directory or File name exactly (case-sensitivity is a configuration choice)" and
  "returns the origin together with the file's declared type and size, or signals
  not-found if any segment fails to match or the terminal entry is a Directory".
  \<open>same\<close> is the configured comparison of names; \<open>walk\<close> is the entry the
  segments lead to, \<open>None\<close> when a segment matches nothing.
\<close>

datatype FileTreeEntry = File string nat origin | Directory "(string \<times> FileTreeEntry) list"

fun walk :: "(string \<Rightarrow> string \<Rightarrow> bool) \<Rightarrow> FileTreeEntry \<Rightarrow> string list \<Rightarrow> FileTreeEntry option"
  and walk_children ::
    "(string \<Rightarrow> string \<Rightarrow> bool) \<Rightarrow> (string \<times> FileTreeEntry) list \<Rightarrow> string \<Rightarrow> string list
       \<Rightarrow> FileTreeEntry option" where
  "walk same entry [] = Some entry"
| "walk same (File t sz orig) (seg # rest) = None"
| "walk same (Directory children) (seg # rest) = walk_children same children seg rest"
| "walk_children same [] seg rest = None"
| "walk_children same ((n, entry) # children) seg rest =
     (if same n seg then walk same entry rest else walk_children same children seg rest)"

definition resolve ::
  "(string \<Rightarrow> string \<Rightarrow> bool) \<Rightarrow> FileTreeEntry \<Rightarrow> string list \<Rightarrow> ResolvedFile option" where
  "resolve same tree pathSegments =
     (case walk same tree pathSegments of
        Some (File t sz orig) \<Rightarrow>
          Some \<lparr> inner = Some \<lparr> star_type = Some t, json_size = Some (Num (int sz)) \<rparr>,
                 file_type = Some t, file_size = Some (Num (int sz)), origin = orig \<rparr>
      | _ \<Rightarrow> None)"

text \<open>
  Modelled from the spec: \<open>node.createReadStream\<close> (meditree.js) is not among the
  sources. Section 4.5, for a local origin: "open the physical file for reading; if range
  is given, seek to range.start and limit the stream to range.end - range.start + 1
  bytes; if omitted, stream the whole file. Range bounds are clamped and a start beyond
  end-of-file is an error (not a truncated stream)"; section 7: "RangeError (start beyond
  size, or start > end)". \<open>contents\<close> are the bytes of the physical file; a missing
  bound defaults as in \<open>pipeFile\<close>. The bounds are clamped to the file first; the
  error is raised when the start lies beyond the end of the file, when the clamped start
  exceeds the clamped end, or when a bound is no finite number.
\<close>

definition slice :: "byte list \<Rightarrow> int \<Rightarrow> int \<Rightarrow> byte list" where
  "slice contents a b = take (nat (b - a + 1)) (drop (nat a) contents)"

definition openStream_local :: "byte list \<Rightarrow> read_options \<Rightarrow> js_error + read_stream" where
  "openStream_local contents options =
     (case options of
        None \<Rightarrow> Inr (Readable contents)
      | Some (start, end) \<Rightarrow>
          (case (to_number (nullish_assign start (Num 0)),
                 to_number (nullish_assign end (Num (int (length contents) - 1)))) of
             (Num a, Num b) \<Rightarrow>
               (let lo = max 0 a; hi = min b (int (length contents) - 1) in
                if int (length contents) \<le> a \<or> hi < lo then Inl RangeError
                else Inr (Readable (slice contents lo hi)))
           | _ \<Rightarrow> Inl RangeError))"

section \<open>Configuration (config.ts)\<close>

text \<open>
  A configuration is a JSON object: a map from keys to values. \<open>truthy_val\<close> is the
  truthiness of \<open>config.key\<close>, a missing key being \<open>undefined\<close>.
\<close>

datatype jval =
  JStr string | JNum int | JBool bool | JNull | JList "string list"
  | JRecord "(string \<times> string) list"

type_synonym config = "string \<rightharpoonup> jval"

definition truthy_val :: "jval option \<Rightarrow> bool" where
  "truthy_val v =
     (case v of
        None \<Rightarrow> False
      | Some (JStr s) \<Rightarrow> s \<noteq> []
      | Some (JNum n) \<Rightarrow> n \<noteq> 0
      | Some (JBool b) \<Rightarrow> b
      | Some JNull \<Rightarrow> False
      | Some (JList l) \<Rightarrow> True
      | Some (JRecord r) \<Rightarrow> True)"

text \<open>\<open>defaultConfig\<close>; \<open>darwin\<close> tells whether \<open>process.platform\<close> is darwin.\<close>

definition defaultConfig :: "bool \<Rightarrow> config" where
  "defaultConfig darwin =
     [''root'' \<mapsto> JStr ''.'',
      ''port'' \<mapsto> JNum 80,
      ''rebuildInterval'' \<mapsto> JNum 3000,
      ''fileType'' \<mapsto> JRecord
         [(''video/mp4'', ''video''), (''image/png'', ''image''), (''image/jpeg'', ''image''),
          (''image/svg+xml'', ''image''), (''image/gif'', ''image''), (''image/webp'', ''image''),
          (''audio/mpeg'', ''audio''), (''text/markdown'', ''text''), (''text/plain'', ''text'')],
      ''fileTypePattern'' \<mapsto> JRecord
         [(''**/*.mp4'', ''video/mp4''), (''**/*.svg'', ''image/svg+xml''),
          (''**/*.png'', ''image/png''), (''**/*.+(jpeg|jpg)'', ''image/jpeg''),
          (''**/*.mp3'', ''audio/mpeg''), (''**/*.md'', ''text/markdown''),
          (''**/*.txt'', ''text/plain''), (''**/*.gif'', ''image/gif''),
          (''**/*.webp'', ''image/webp'')]]
     ++ (if darwin then [''ignore'' \<mapsto> JList [''**/*.app'', ''**/*.DS_Store'']] else Map.empty)"

text \<open>
  The external generators: \<open>fromSecretKey\<close> is
  \<open>Buffer.from(nacl.box.keyPair.fromSecretKey(k).publicKey).toString("base64")\<close>, which
  may throw; \<open>keyPair\<close> is the pair \<open>nacl.box.keyPair()\<close> generates, in base64;
  \<open>uuidv4\<close> the generated name.
\<close>

record generators =
  fromSecretKey :: "jval \<Rightarrow> js_error + string"
  keyPair :: "string \<times> string"
  uuidv4 :: string

text \<open>
  \<open>setupConfig\<close>. \<open>Object.assign({}, config, defaultConfig)\<close> builds a new object,
  the later source overwriting the earlier: \<open>config ++ defaultConfig\<close>. The argument
  itself is not changed; the new object is the return value.
\<close>

definition setupConfig :: "generators \<Rightarrow> bool \<Rightarrow> config \<Rightarrow> js_error + config" where
  "setupConfig gen darwin config0 =
     (let config = config0 ++ defaultConfig darwin in
      case (if truthy_val (config ''privateKey'') then
              (if \<not> truthy_val (config ''publicKey'') then
                 (case config ''privateKey'' of
                    None \<Rightarrow> Inr config
                  | Some sk \<Rightarrow>
                      (case fromSecretKey gen sk of
                         Inl e \<Rightarrow> Inl e
                       | Inr pk \<Rightarrow> Inr (config(''publicKey'' \<mapsto> JStr pk))))
               else Inr config)
            else if \<not> truthy_val (config ''publicKey'') then
              (case keyPair gen of
                 (publicKey, secretKey) \<Rightarrow>
                   Inr (config(''publicKey'' \<mapsto> JStr publicKey, ''privateKey'' \<mapsto> JStr secretKey)))
            else Inr config) of
        Inl e \<Rightarrow> Inl e
      | Inr config1 \<Rightarrow>
          Inr (if \<not> truthy_val (config1 ''name'') then config1(''name'' \<mapsto> JStr (uuidv4 gen))
               else config1))"

text \<open>
  The file system as far as \<open>findConfig\<close> uses it. A directory is the list of its
  path segments, innermost first, so \<open>path.dirname\<close> is the tail and the root, which is
  its own parent, is \<open>[]\<close>; \<open>path.join(dir, name)\<close> is the pair. A file holds a JSON
  object (\<open>JSON.parse\<close> of what \<open>JSON.stringify\<close> wrote).
\<close>

type_synonym file_path = "string list \<times> string"

type_synonym file_system = "file_path \<rightharpoonup> config"

fun findFsEntryInTree :: "file_system \<Rightarrow> string list \<Rightarrow> string \<Rightarrow> file_path option" where
  "findFsEntryInTree files [] fileName =
     (if files ([], fileName) \<noteq> None then Some ([], fileName) else None)"
| "findFsEntryInTree files (d # dir) fileName =
     (if files (d # dir, fileName) \<noteq> None then Some (d # dir, fileName)
      else findFsEntryInTree files dir fileName)"

definition readFileSync :: "file_system \<Rightarrow> file_path \<Rightarrow> js_error + config" where
  "readFileSync files p = (case files p of None \<Rightarrow> Inl FileNotFound | Some c \<Rightarrow> Inr c)"

text \<open>
  \<open>findConfig\<close> returns the file system it leaves behind and either the configuration
  or the exception. In the first branch the result of \<open>setupConfig(config)\<close> is not
  used: the object written back and returned is \<open>config\<close> as built from the file.
\<close>

definition findConfig ::
  "generators \<Rightarrow> bool \<Rightarrow> file_system \<Rightarrow> string list \<Rightarrow> string \<Rightarrow> file_system \<times> (js_error + config)" where
  "findConfig gen darwin files rootDir filename =
     (case findFsEntryInTree files rootDir filename of
        Some configFile \<Rightarrow>
          (case readFileSync files configFile of
             Inl e \<Rightarrow> (files, Inl e)
           | Inr parsed \<Rightarrow>
               let config = defaultConfig darwin ++ parsed in
               (case setupConfig gen darwin config of
                  Inl e \<Rightarrow> (files, Inl e)
                | Inr unused \<Rightarrow> (files(configFile \<mapsto> config), Inr config)))
      | None \<Rightarrow>
          let configFile = (rootDir, filename) in
          (case setupConfig gen darwin Map.empty of
             Inl e \<Rightarrow> (files, Inl e)
           | Inr created \<Rightarrow> (files(configFile \<mapsto> created), Inl ConfigurationNotFound)))"

section \<open>Theorems\<close>

subsection \<open>Host tree\<close>

lemma HostTree_resolveFile_after_rebuild:
  "HostTree_resolveFile treeResolve (rebuildFileTree ht tree) pathParts = treeResolve tree pathParts"
  by (simp add: HostTree_resolveFile_def rebuildFileTree_def)

text \<open>
  C10. Calling \<open>resolveFile\<close> on a freshly constructed \<open>HostTree\<close>, before any
  \<open>rebuildFileTree\<close> has stored a tree, does not throw and returns no file, whatever the
  path, the options and the tree's own lookup method are.
\<close>

theorem C10_resolveFile_before_rebuild:
  "HostTree_resolveFile treeResolve (HostTree_constructor mm options) pathParts = Inr None"
  by (simp add: HostTree_resolveFile_def HostTree_constructor_def)

subsection \<open>Bubble hook\<close>

lemma bubbleHook_visited:
  "msg_header m = Some h \<Longrightarrow> nodeId \<in> set h \<Longrightarrow> bubbleHook nodeId m = Inr []"
  by (simp add: bubbleHook_def)

lemma startsWith_append: "startsWith (p @ s) p"
  by (simp add: startsWith_def)

lemma removePrefix_append: "removePrefix (p @ s) p = s"
  by (simp add: removePrefix_def startsWith_def)

lemma bubbleHook_fresh:
  "msg_type m = object \<Longrightarrow> startsWith (msg_id m) ''[bubble]'' \<Longrightarrow> msg_header m = Some h \<Longrightarrow>
   nodeId \<notin> set h \<Longrightarrow>
   bubbleHook nodeId m =
     Inr [Send (msg_id m) (msg_data m) (h @ [nodeId]),
          Handle (removePrefix (msg_id m) ''[bubble]'') (msg_data m)]"
  by (simp add: bubbleHook_def)

lemma run_two_node_cycle:
  assumes "a \<noteq> b"
  shows "run (Suc (Suc k)) a b (bubble_from a b i d) =
           Some (Inr \<lparr> inflight = [], handled = [(b, i, d)] \<rparr>)"
proof -
  define bid where "bid = ''[bubble]'' @ i"
  let ?m1 = "sent_message bid d [a]"
  let ?m2 = "sent_message bid d [a, b]"
  have start: "bubble_from a b i d = \<lparr> inflight = [(b, ?m1)], handled = [] \<rparr>"
    by (simp add: bubble_from_def sendBubble_def bid_def)
  have "startsWith bid ''[bubble]''" and "removePrefix bid ''[bubble]'' = i"
    unfolding bid_def by (rule startsWith_append, rule removePrefix_append)
  with assms have hb: "bubbleHook b ?m1 = Inr [Send bid d [a, b], Handle i d]"
    using bubbleHook_fresh [of ?m1 "[a]" b] by (simp add: sent_message_def)
  have ha: "bubbleHook a ?m2 = Inr []"
    by (rule bubbleHook_visited [of _ "[a, b]"]) (simp_all add: sent_message_def)
  have s1: "run (Suc (Suc k)) a b \<lparr> inflight = [(b, ?m1)], handled = [] \<rparr>
          = run (Suc k) a b \<lparr> inflight = [(a, ?m2)], handled = [(b, i, d)] \<rparr>"
    using assms by (subst run.simps) (simp add: hb peer_def del: run.simps)
  have s2: "run (Suc k) a b \<lparr> inflight = [(a, ?m2)], handled = [(b, i, d)] \<rparr>
          = run k a b \<lparr> inflight = [], handled = [(b, i, d)] \<rparr>"
    by (subst run.simps) (simp add: ha del: run.simps)
  show ?thesis by (simp only: start s1 s2) simp
qed

text \<open>
  C1. A message whose header already holds the node's own name is discarded by the
  bubble hook: the hook sends nothing and calls no handler, on whichever Link the message
  arrived. Consequently, when node \<open>a\<close> sends a bubble to a distinct node \<open>b\<close> over
  their connection, the exchange ends after two deliveries with the wire empty, \<open>b\<close>'s
  handler called exactly once (with the original id and data) and \<open>a\<close>'s handler never
  called.
\<close>

theorem C1_bubble_discard_and_cycle:
  "(\<forall>m h arrival. msg_header m = Some h \<and> nodeId \<in> set h \<longrightarrow>
        bubbleHook nodeId (m :: 'd Message) = Inr [] \<and>
        node_receive nodeId arrival m = Inr ([], []))
   \<and> (a \<noteq> b \<longrightarrow>
        (\<forall>k. run (Suc (Suc k)) a b (bubble_from a b i (d :: 'd)) =
               Some (Inr \<lparr> inflight = [], handled = [(b, i, d)] \<rparr>)))"
  by (simp add: bubbleHook_visited node_receive_def run_two_node_cycle del: run.simps)

theorem C1_bubble_discard_and_cycle_witness:
  "bubbleHook ''A'' (sent_message ''[bubble]evt'' (7::nat) [''A'', ''B'']) = Inr []
   \<and> node_receive ''A'' 0 (sent_message ''[bubble]evt'' (7::nat) [''A'', ''B'']) = Inr ([], [])
   \<and> ''A'' \<noteq> ''B''
   \<and> run 2 ''A'' ''B'' (bubble_from ''A'' ''B'' ''evt'' (7::nat)) =
       Some (Inr \<lparr> inflight = [], handled = [(''B'', ''evt'', 7)] \<rparr>)"
proof -
  let ?m = "sent_message ''[bubble]evt'' (7::nat) [''A'', ''B'']"
  have h: "msg_header ?m = Some [''A'', ''B''] \<and> ''A'' \<in> set [''A'', ''B'']"
    by (simp add: sent_message_def)
  have ne: "''A'' \<noteq> ''B''" by simp
  note c1 = C1_bubble_discard_and_cycle [of "''A''" "''A''" "''B''" "''evt''" "7::nat"]
  from c1 h have "bubbleHook ''A'' ?m = Inr [] \<and> node_receive ''A'' 0 ?m = Inr ([], [])"
    by blast
  moreover from c1 ne
  have "run (Suc (Suc 0)) ''A'' ''B'' (bubble_from ''A'' ''B'' ''evt'' (7::nat)) =
          Some (Inr \<lparr> inflight = [], handled = [(''B'', ''evt'', 7)] \<rparr>)"
    by blast
  ultimately show ?thesis using ne by (simp only: numeral_2_eq_2) simp
qed

text \<open>
  C2 as stated does not hold: at node \<open>B\<close> with Links 0, 1 and 2, a bubble arriving on
  Link 0 is written back to Link 0 and to no other Link, whereas the stated rule names
  Links 1 and 2; and the send comes before the handler call.
\<close>

theorem C2_forward_counterexample:
  "node_receive ''B'' 0 (sent_message ''[bubble]evt'' (7::nat) [''A'']) =
     Inr ([(0, sent_message ''[bubble]evt'' 7 [''A'', ''B''])], [(''evt'', 7)])
   \<and> forward_links_spec [0, 1, 2] 0 = [1, 2]
   \<and> bubbleHook ''B'' (sent_message ''[bubble]evt'' (7::nat) [''A'']) =
       Inr [Send ''[bubble]evt'' 7 [''A'', ''B''], Handle ''evt'' 7]"
  by (simp add: node_receive_def bubbleHook_def sent_message_def startsWith_def
      removePrefix_def forward_links_spec_def)

text \<open>
  C2, amended. When the hook on a \<open>Net\<close> reads a bubble message (type object, id
  starting with \<open>[bubble]\<close>) whose header does not contain the node's name, it first
  sends the message once, with the node's name appended to the header, on that same
  \<open>Net\<close>, the connection the message arrived on, and then calls the local handler with
  the id stripped of its prefix. The hook itself writes to no other Link.
\<close>

theorem C2_forward_amended:
  "msg_type m = object \<Longrightarrow> startsWith (msg_id m) ''[bubble]'' \<Longrightarrow> msg_header m = Some h \<Longrightarrow>
   nodeId \<notin> set h \<Longrightarrow>
   bubbleHook nodeId m =
     Inr [Send (msg_id m) (msg_data m) (h @ [nodeId]),
          Handle (removePrefix (msg_id m) ''[bubble]'') (msg_data m)]
   \<and> node_receive nodeId arrival m =
       Inr ([(arrival, sent_message (msg_id m) (msg_data m) (h @ [nodeId]))],
            [(removePrefix (msg_id m) ''[bubble]'', msg_data m)])"
  by (simp add: node_receive_def bubbleHook_fresh)

theorem C2_forward_amended_witness:
  "msg_type (sent_message ''[bubble]evt'' (7::nat) [''A'']) = object
   \<and> startsWith ''[bubble]evt'' ''[bubble]''
   \<and> ''B'' \<notin> set [''A'']
   \<and> node_receive ''B'' 1 (sent_message ''[bubble]evt'' (7::nat) [''A'']) =
       Inr ([(1, sent_message ''[bubble]evt'' 7 [''A'', ''B''])], [(''evt'', 7)])"
proof -
  let ?m = "sent_message ''[bubble]evt'' (7::nat) [''A'']"
  have a1: "msg_type ?m = object" by (simp add: sent_message_def)
  have a2: "startsWith (msg_id ?m) ''[bubble]''" by (simp add: sent_message_def startsWith_def)
  have a3: "msg_header ?m = Some [''A'']" by (simp add: sent_message_def)
  have a4: "''B'' \<notin> set [''A'']" by simp
  from C2_forward_amended [OF a1 a2 a3 a4, of 1] a1 a2 a4 show ?thesis
    by (simp add: sent_message_def removePrefix_def startsWith_def)
qed

subsection \<open>Batch string writer\<close>

lemma be_bytes_sum:
  assumes "0 \<le> (t::int)" "t < 2147483648"
  shows "(t div 16777216 mod 256) * 16777216 + (t div 65536 mod 256) * 65536
        + (t div 256 mod 256) * 256 + t mod 256 = t"
proof -
  define q1 where "q1 = t div 256"
  define q2 where "q2 = q1 div 256"
  define q3 where "q3 = q2 div 256"
  have e1: "t = q1 * 256 + t mod 256" by (simp add: q1_def)
  have e2: "q1 = q2 * 256 + q1 mod 256" by (simp add: q2_def)
  have e3: "q2 = q3 * 256 + q2 mod 256" by (simp add: q3_def)
  have d2: "t div 65536 = q2"
    unfolding q2_def q1_def by (simp add: zdiv_zmult2_eq)
  have d3: "t div 16777216 = q3"
    unfolding q3_def q2_def q1_def by (simp add: zdiv_zmult2_eq)
  have "0 \<le> q3" "q3 < 256"
    using assms unfolding d3 [symmetric] by simp_all
  then have m3: "q3 mod 256 = q3" by simp
  have "(q3 mod 256) * 16777216 + (q2 mod 256) * 65536 + (q1 mod 256) * 256 + t mod 256 = t"
    unfolding m3 using e1 e2 e3 by linarith
  then show ?thesis by (simp only: d2 d3 q1_def)
qed

lemma uint_byte_of_int: "uint (word_of_int k :: byte) = k mod 256"
  by (simp add: uint_word_of_int_eq take_bit_eq_mod)

lemma readInt32BE_int32BE:
  assumes "0 \<le> t" "t < 2147483648"
  shows "readInt32BE (int32BE t @ rest) = Some (t, rest)"
proof -
  have "readInt32BE (int32BE t @ rest) =
     (let u = (t div 16777216 mod 256) * 16777216 + (t div 65536 mod 256) * 65536
        + (t div 256 mod 256) * 256 + t mod 256
      in Some (if 2147483648 \<le> u then u - 4294967296 else u, rest))"
    by (simp only: readInt32BE_def int32BE_def append.simps list.case uint_byte_of_int)
  also have "\<dots> = Some (t, rest)"
    unfolding be_bytes_sum [OF assms] Let_def using assms by simp
  finally show ?thesis .
qed

lemma collect_eq:
  "collect vs (strs, t) = (strs @ map (\<lambda>v. (v, byteLength v)) vs, t + sum_list (map byteLength vs))"
  by (induction vs arbitrary: strs t) auto

lemma length_concat_utf8: "length (concat (map utf8 vs)) = sum_list (map byteLength vs)"
  by (induction vs) (auto simp: byteLength_def)

lemma buffer_write_fits:
  "offset + byteLength v \<le> length buf \<Longrightarrow>
   buffer_write buf v offset (byteLength v) =
     Inr (take offset buf @ utf8 v @ drop (offset + byteLength v) buf)"
  by (simp add: buffer_write_def byteLength_def)

lemma write_each_eq:
  "cursor w + sum_list (map byteLength vs) \<le> length (backend w) \<Longrightarrow>
   write_each (map (\<lambda>v. (v, byteLength v)) vs) w =
     Inr (w\<lparr>backend := take (cursor w) (backend w) @ concat (map utf8 vs)
                    @ drop (cursor w + sum_list (map byteLength vs)) (backend w),
       cursor := cursor w + sum_list (map byteLength vs)\<rparr>)"
proof (induction vs arbitrary: w)
  case Nil
  then show ?case by simp
next
  case (Cons v vs)
  let ?n = "byteLength v"
  let ?b = "take (cursor w) (backend w) @ utf8 v @ drop (cursor w + ?n) (backend w)"
  let ?w1 = "w\<lparr>backend := ?b, cursor := cursor w + ?n\<rparr>"
  from Cons.prems have fit: "cursor w + ?n \<le> length (backend w)" by simp
  have len: "length ?b = length (backend w)" using fit by (simp add: byteLength_def)
  have lu: "length (utf8 v) = ?n" by (simp add: byteLength_def)
  have step: "write_each (map (\<lambda>v. (v, byteLength v)) (v # vs)) w
            = write_each (map (\<lambda>v. (v, byteLength v)) vs) ?w1"
    using fit by (simp add: buffer_write_fits)
  have pre: "cursor ?w1 + sum_list (map byteLength vs) \<le> length (backend ?w1)"
    using Cons.prems len by simp
  have tk: "take (cursor w + ?n) ?b = take (cursor w) (backend w) @ utf8 v"
    using fit lu by simp
  have dr: "drop (cursor w + ?n + sum_list (map byteLength vs)) ?b
          = drop (cursor w + ?n + sum_list (map byteLength vs)) (backend w)"
    using fit lu by simp (simp add: add.commute add.left_commute)
  show ?case
    unfolding step Cons.IH [OF pre] using tk dr by (simp add: add.assoc)
qed

lemma length_int32BE: "length (int32BE v) = 4"
  by (simp add: int32BE_def)

lemma ensureCapacity_cursor: "cursor (ensureCapacity w n) = cursor w"
  by (simp add: ensureCapacity_def)

lemma ensureCapacity_length: "cursor w + n \<le> length (backend (ensureCapacity w n))"
  by (simp add: ensureCapacity_def)

lemma strings_layout:
  assumes small: "sum_list (map byteLength vs) < 2147483648"
  shows "\<exists>w'. strings vs w = Inr w'
           \<and> cursor w' = cursor w + 4 + sum_list (map byteLength vs)
           \<and> written w w' = int32BE (int (sum_list (map byteLength vs))) @ concat (map utf8 vs)"
proof -
  define T where "T = sum_list (map byteLength vs)"
  define c where "c = cursor w"
  define w1 where "w1 = ensureCapacity w (T + 4)"
  define b where "b = take c (backend w1) @ int32BE (int T) @ drop (c + 4) (backend w1)"
  define w2 where "w2 = w1\<lparr>backend := b, cursor := c + 4\<rparr>"
  define body where "body = concat (map utf8 vs)"
  have c1: "cursor w1 = c" by (simp add: w1_def c_def ensureCapacity_cursor)
  have cap: "c + (T + 4) \<le> length (backend w1)"
    unfolding w1_def c_def by (rule ensureCapacity_length)
  have lb: "length b = length (backend w1)"
    using cap by (simp add: b_def length_int32BE)
  have lbody: "length body = T"
    by (simp add: body_def T_def length_concat_utf8)
  have col: "collect vs ([], 0) = (map (\<lambda>v. (v, byteLength v)) vs, T)"
    by (simp add: collect_eq T_def)
  have wr: "writeInt32BE (backend w1) (int T) (cursor w1) = Inr b"
    using small cap by (simp add: writeInt32BE_def c1 b_def T_def)
  have pre: "cursor w2 + sum_list (map byteLength vs) \<le> length (backend w2)"
    using cap lb by (simp add: w2_def T_def)
  define w' where "w' = w2\<lparr>backend := take (c + 4) b @ body @ drop (c + 4 + T) b,
                             cursor := c + 4 + T\<rparr>"
  have we: "write_each (map (\<lambda>v. (v, byteLength v)) vs) w2 = Inr w'"
    using write_each_eq [OF pre] by (simp add: w'_def w2_def T_def body_def)
  have "strings vs w =
          (case writeInt32BE (backend w1) (int T) (cursor w1) of
             Inl e \<Rightarrow> Inl e
           | Inr b \<Rightarrow>
               write_each (map (\<lambda>v. (v, byteLength v)) vs)
                 (w1\<lparr>backend := b, cursor := cursor w1 + 4\<rparr>))"
    unfolding w1_def by (simp add: strings_def col Let_def)
  also have "\<dots> = write_each (map (\<lambda>v. (v, byteLength v)) vs) w2"
    unfolding wr by (simp add: c1 w2_def)
  finally have res: "strings vs w = Inr w'"
    by (simp only: we)
  have cur: "cursor w' = c + 4 + T" by (simp add: w'_def)
  have tk4: "take (c + 4) b = take c (backend w1) @ int32BE (int T)"
    using cap by (simp add: b_def length_int32BE)
  have ltk: "length (take c (backend w1)) = c" using cap by simp
  have "take (c + 4 + T) (backend w') = take c (backend w1) @ int32BE (int T) @ body"
    using ltk lbody by (simp add: w'_def tk4 length_int32BE)
  then have "written w w' = int32BE (int T) @ body"
    using ltk by (simp add: written_def cur c_def [symmetric])
  with res cur show ?thesis
    by (simp add: T_def c_def body_def)
qed

text \<open>
  C3 as stated does not hold: the sequences \<open>[ab, c]\<close> and \<open>[a, bc]\<close> are written
  as the same seven bytes, one length 3 followed by \<open>abc\<close>, so no reader can split the
  frame back into the strings; the frame with a length before each string, as the
  specification words it, would be eleven bytes.
\<close>

theorem C3_strings_counterexample:
  "map_sum id (written \<lparr>backend = [], cursor = 0\<rparr>)
       (strings [''ab'', ''c''] \<lparr>backend = [], cursor = 0\<rparr>)
     = Inr [0, 0, 0, 3, 97, 98, 99]
   \<and> map_sum id (written \<lparr>backend = [], cursor = 0\<rparr>)
       (strings [''a'', ''bc''] \<lparr>backend = [], cursor = 0\<rparr>)
     = Inr [0, 0, 0, 3, 97, 98, 99]
   \<and> [''ab'', ''c''] \<noteq> [''a'', ''bc'']
   \<and> frame_spec [''ab'', ''c''] = [0, 0, 0, 2, 97, 98, 0, 0, 0, 1, 99]"
  by (simp add: strings_def byteLength_def utf8_def ensureCapacity_def writeInt32BE_def
      int32BE_def buffer_write_def frame_spec_def written_def)

text \<open>
  C3, amended. For every sequence of strings whose UTF-8 lengths sum to less than
  \<open>2^31\<close>, the batch writer succeeds, advances the cursor by 4 plus the total length
  and writes one 4-byte big-endian prefix holding the total length, followed by the
  strings' bytes concatenated in order, with no prefix per string. Reading one
  length-prefixed string from these bytes gives back the concatenation of the strings,
  and what follows the frame is left untouched.
\<close>

theorem C3_strings_amended:
  assumes "sum_list (map byteLength vs) < 2147483648"
  shows "\<exists>w'. strings vs w = Inr w'
           \<and> cursor w' = cursor w + 4 + sum_list (map byteLength vs)
           \<and> written w w' = int32BE (int (sum_list (map byteLength vs))) @ concat (map utf8 vs)
           \<and> readString (written w w' @ rest) = Some (concat (map utf8 vs), rest)"
proof -
  from strings_layout [OF assms, of w] obtain w' where
    r: "strings vs w = Inr w'" and
    c: "cursor w' = cursor w + 4 + sum_list (map byteLength vs)" and
    l: "written w w' = int32BE (int (sum_list (map byteLength vs))) @ concat (map utf8 vs)"
    by blast
  have "readInt32BE (int32BE (int (sum_list (map byteLength vs))) @ (concat (map utf8 vs) @ rest))
        = Some (int (sum_list (map byteLength vs)), concat (map utf8 vs) @ rest)"
    using assms by (intro readInt32BE_int32BE) simp_all
  then have "readString (written w w' @ rest) = Some (concat (map utf8 vs), rest)"
    by (simp add: readString_def l length_concat_utf8)
  with r c l show ?thesis by blast
qed

theorem C3_strings_amended_witness:
  "sum_list (map byteLength [''ab'', ''c'']) < 2147483648
   \<and> (\<exists>w'. strings [''ab'', ''c''] \<lparr>backend = [], cursor = 0\<rparr> = Inr w'
         \<and> cursor w' = 7
         \<and> written \<lparr>backend = [], cursor = 0\<rparr> w' = [0, 0, 0, 3, 97, 98, 99]
         \<and> readString (written \<lparr>backend = [], cursor = 0\<rparr> w' @ [255]) = Some ([97, 98, 99], [255]))"
proof -
  have h: "sum_list (map byteLength [''ab'', ''c'']) < 2147483648"
    by (simp add: byteLength_def utf8_def)
  from C3_strings_amended [OF h, of "\<lparr>backend = [], cursor = 0\<rparr>" "[255]"] h
  show ?thesis
    by (simp add: byteLength_def utf8_def int32BE_def)
qed

subsection \<open>The HTTP file endpoint\<close>

lemma to_double_exact: "\<bar>n\<bar> \<le> 9007199254740992 \<Longrightarrow> to_double n = Num n"
  by (auto simp: to_double_def round_nat_def)

lemma jsnum_add_exact: "\<bar>a + b\<bar> \<le> 9007199254740992 \<Longrightarrow> jsnum_add (Num a) (Num b) = Num (a + b)"
  by (simp add: to_double_exact)

lemma jsnum_sub_exact: "\<bar>a - b\<bar> \<le> 9007199254740992 \<Longrightarrow> jsnum_sub (Num a) (Num b) = Num (a - b)"
  by (simp add: jsnum_sub_def to_double_exact)

lemma retrieved_length_exact:
  assumes "0 \<le> a" "a \<le> b" "b < 9007199254740992"
  shows "jsnum_sub (jsnum_add (Num b) (Num 1)) (Num a) = Num (b - a + 1)"
proof -
  have "jsnum_add (Num b) (Num 1) = Num (b + 1)"
    using assms by (intro jsnum_add_exact) simp
  moreover have "jsnum_sub (Num (b + 1)) (Num a) = Num (b + 1 - a)"
    using assms by (intro jsnum_sub_exact) simp
  ultimately show ?thesis by (simp add: algebra_simps)
qed

lemma pipe_stream_contentLength:
  "s \<noteq> Failing \<Longrightarrow> contentLength (pipe_stream s r) = contentLength r"
  by (cases s) (simp_all add: pipe_stream_def)

lemma slice_length:
  "0 \<le> a \<Longrightarrow> a \<le> b \<Longrightarrow> b < int (length cs) \<Longrightarrow> int (length (slice cs a b)) = b - a + 1"
  by (simp add: slice_def)

lemma slice_nth:
  "0 \<le> a \<Longrightarrow> a \<le> b \<Longrightarrow> b < int (length cs) \<Longrightarrow> i < nat (b - a + 1) \<Longrightarrow>
   slice cs a b ! i = cs ! (nat a + i)"
  by (simp add: slice_def)

lemma slice_whole: "cs \<noteq> [] \<Longrightarrow> slice cs 0 (int (length cs) - 1) = cs"
  by (simp add: slice_def)

lemma openStream_local_whole: "openStream_local cs None = Inr (Readable cs)"
  by (simp add: openStream_local_def)

lemma openStream_local_clamped:
  "0 \<le> a \<Longrightarrow> a < int (length cs) \<Longrightarrow> a \<le> b \<Longrightarrow>
   openStream_local cs (Some (Some (Num a), Some (Num b))) =
     Inr (Readable (slice cs a (min b (int (length cs) - 1))))"
  by (simp add: openStream_local_def nullish_assign_def to_number_def Let_def)

lemma openStream_local_range:
  "0 \<le> a \<Longrightarrow> a \<le> b \<Longrightarrow> b < int (length cs) \<Longrightarrow>
   openStream_local cs (Some (Some (Num a), Some (Num b))) = Inr (Readable (slice cs a b))"
  by (simp add: openStream_local_clamped)

lemma openStream_local_beyond:
  "int (length cs) \<le> a \<Longrightarrow> openStream_local cs (Some (Some (Num a), e)) = Inl RangeError"
  by (cases "to_number (nullish_assign e (Num (int (length cs) - 1)))")
     (simp_all add: openStream_local_def nullish_assign_def to_number_def)

lemma openStream_local_ranged_result:
  assumes "openStream_local cs (Some (st, en)) = Inr r"
  shows "\<exists>lo hi. 0 \<le> lo \<and> lo \<le> hi \<and> hi < int (length cs) \<and> r = Readable (slice cs lo hi)"
proof (cases "to_number (nullish_assign st (Num 0))")
  case (Num a)
  note A = this
  show ?thesis
  proof (cases "to_number (nullish_assign en (Num (int (length cs) - 1)))")
    case (Num b)
    let ?lo = "max 0 a" and ?hi = "min b (int (length cs) - 1)"
    from assms A Num have ok: "\<not> (int (length cs) \<le> a \<or> ?hi < ?lo)"
      and r: "r = Readable (slice cs ?lo ?hi)"
      by (auto simp: openStream_local_def Let_def split: if_splits)
    then have "0 \<le> ?lo \<and> ?lo \<le> ?hi \<and> ?hi < int (length cs)" by auto
    with r show ?thesis by blast
  qed (use assms A in \<open>simp_all add: openStream_local_def\<close>)
qed (use assms in \<open>simp_all add: openStream_local_def\<close>)

lemma range_bounds_parsed:
  "resolveRange (range_header req) = (Some s, Some e) \<Longrightarrow> range_bounds req file = Inr (s, e)"
  by (simp add: range_bounds_def nullish_assign_def to_number_def)

lemma range_bounds_general:
  "resolveRange (range_header req) = (s0, e0) \<Longrightarrow> inner file = Some i \<Longrightarrow>
   range_bounds req file =
     Inr (case s0 of None \<Rightarrow> Num 0 | Some s \<Rightarrow> s,
          case e0 of None \<Rightarrow> jsnum_sub (to_number (json_size i)) (Num 1) | Some e \<Rightarrow> e)"
  by (cases s0; cases e0)
     (simp_all add: range_bounds_def nullish_assign_def to_number_def inner_size_def)

lemma resolveRange_falsy: "\<not> truthy rh \<Longrightarrow> resolveRange rh = (None, None)"
  by (simp add: resolveRange_def)

lemma range_bounds_no_header:
  "\<not> truthy (range_header req) \<Longrightarrow> inner file = Some i \<Longrightarrow>
   range_bounds req file = Inr (Num 0, jsnum_sub (to_number (json_size i)) (Num 1))"
  by (simp add: range_bounds_general [OF resolveRange_falsy])

lemma pipeFile_eq:
  assumes "inner file = Some i" and "range_bounds req file = Inr (start, end)"
  shows "pipeFile plugins createReadStream req res file =
     (case acquire_stream plugins createReadStream file (Some (Some start, Some end)) of
        Inl err \<Rightarrow> Inl err
      | Inr stream \<Rightarrow>
          Inr (pipe_stream stream
            (if truthy (range_header req)
             then res\<lparr>statusCode := 206,
                      contentLength := Some (jsnum_sub (jsnum_add end (Num 1)) start),
                      contentRange := Some (start, end, json_size i),
                      acceptRanges := Some ''bytes''\<rparr>
             else res\<lparr>statusCode := 200,
                      contentLength := Some (jsnum_sub (jsnum_add end (Num 1)) start)\<rparr>)))"
  using assms by (simp add: pipeFile_def inner_size_def Let_def)

lemma acquire_stream_no_plugins:
  "acquire_stream [] createReadStream file options = createReadStream file options"
  by (simp add: acquire_stream_def)

lemma resolveRange_truthy:
  "resolveRange rh = (s0, e0) \<Longrightarrow> s0 \<noteq> None \<or> e0 \<noteq> None \<Longrightarrow> truthy rh"
  by (auto simp: resolveRange_def split: if_splits)

lemma server_pipeFile_eq:
  assumes "inner file = Some i" and "json_size i = Some sz"
    and "resolveRange (range_header req) = (start0, end0)"
  shows "server_pipeFile createReadStream req res file =
     (let start = to_number (nullish_assign start0 (Num 0));
          end = to_number (nullish_assign end0 (jsnum_sub (to_number (file_size file)) (Num 1)))
      in case createReadStream file (Some (Some start, Some end)) of
           Inl err \<Rightarrow> Inl err
         | Inr stream \<Rightarrow>
             Inr (pipe_stream stream
               (if truthy (range_header req)
                then res\<lparr>statusCode := 206,
                         contentLength := Some (jsnum_sub (jsnum_add end (Num 1)) start),
                         contentRange := Some (start, end, Some sz),
                         acceptRanges := Some ''bytes''\<rparr>
                else res\<lparr>statusCode := 206,
                         contentLength := Some (jsnum_sub (jsnum_add end (Num 1)) start)\<rparr>)))"
  using assms
  by (cases start0; cases end0)
     (simp_all add: server_pipeFile_def inner_size_def Let_def nullish_assign_def to_number_def
        split: sum.splits)

lemma bit_length_example: "bit_length 9007199254740993 = 54"
  by (simp add: bit_length.simps)

lemma parseInt_rounds_to_double: "parseInt ''9007199254740993'' = Num 9007199254740992"
  by (simp add: parseInt_def is_space_def digit_of_def to_double_def round_nat_def
      bit_length_example Let_def)

lemma trim_no_break_space: "trim [CHR 0xA0, CHR ''5'', CHR 0x20] = ''5''"
  by (simp add: trim_def is_space_def)

lemma pipeFile_local_ranged:
  assumes r: "0 \<le> a" "a \<le> b" "b < int (length cs)"
    and sz: "int (length cs) \<le> 9007199254740992"
    and i: "inner rf = Some i"
    and rr: "resolveRange (range_header req) = (Some (Num a), Some (Num b))"
  shows "pipeFile [] (\<lambda>f. openStream_local cs) req res rf =
          Inr (res\<lparr>statusCode := 206, contentLength := Some (Num (b - a + 1)),
                   contentRange := Some (Num a, Num b, json_size i),
                   acceptRanges := Some ''bytes'', body := Piped (slice cs a b)\<rparr>)"
proof -
  have t: "truthy (range_header req)"
    using resolveRange_truthy [OF rr] by simp
  have rb: "range_bounds req rf = Inr (Num a, Num b)"
    using rr by (rule range_bounds_parsed)
  have os: "openStream_local cs (Some (Some (Num a), Some (Num b))) = Inr (Readable (slice cs a b))"
    using r by (simp add: openStream_local_range)
  have len: "jsnum_sub (jsnum_add (Num b) (Num 1)) (Num a) = Num (b - a + 1)"
    using r sz by (intro retrieved_length_exact) simp_all
  show ?thesis
    by (simp add: pipeFile_eq [OF i rb] acquire_stream_no_plugins os t len pipe_stream_def
        del: jsnum_add.simps)
qed

lemma server_pipeFile_local_ranged:
  assumes r: "0 \<le> a" "a \<le> b" "b < int (length cs)"
    and sz: "int (length cs) \<le> 9007199254740992"
    and i: "inner rf = Some i" and z: "json_size i = Some z0"
    and rr: "resolveRange (range_header req) = (Some (Num a), Some (Num b))"
  shows "server_pipeFile (\<lambda>f. openStream_local cs) req res rf =
          Inr (res\<lparr>statusCode := 206, contentLength := Some (Num (b - a + 1)),
                   contentRange := Some (Num a, Num b, Some z0),
                   acceptRanges := Some ''bytes'', body := Piped (slice cs a b)\<rparr>)"
proof -
  have t: "truthy (range_header req)"
    using resolveRange_truthy [OF rr] by simp
  have os: "openStream_local cs (Some (Some (Num a), Some (Num b))) = Inr (Readable (slice cs a b))"
    using r by (simp add: openStream_local_range)
  have len: "jsnum_sub (jsnum_add (Num b) (Num 1)) (Num a) = Num (b - a + 1)"
    using r sz by (intro retrieved_length_exact) simp_all
  show ?thesis
    by (simp add: server_pipeFile_eq [OF i z rr] nullish_assign_def to_number_def os t len
        pipe_stream_def del: jsnum_add.simps)
qed

lemma whole_file_bounds:
  assumes "0 < length cs" "int (length cs) \<le> 9007199254740992"
  shows "jsnum_sub (Num (int (length cs))) (Num 1) = Num (int (length cs) - 1)"
    and "jsnum_sub (jsnum_add (Num (int (length cs) - 1)) (Num 1)) (Num 0) = Num (int (length cs))"
    and "openStream_local cs (Some (Some (Num 0), Some (Num (int (length cs) - 1)))) = Inr (Readable cs)"
proof -
  show "jsnum_sub (Num (int (length cs))) (Num 1) = Num (int (length cs) - 1)"
    using assms by (intro jsnum_sub_exact) simp
  have "jsnum_sub (jsnum_add (Num (int (length cs) - 1)) (Num 1)) (Num 0)
        = Num (int (length cs) - 1 - 0 + 1)"
    using assms by (intro retrieved_length_exact) simp_all
  then show "jsnum_sub (jsnum_add (Num (int (length cs) - 1)) (Num 1)) (Num 0) = Num (int (length cs))"
    by simp
  have "openStream_local cs (Some (Some (Num 0), Some (Num (int (length cs) - 1))))
        = Inr (Readable (slice cs 0 (int (length cs) - 1)))"
    using assms by (intro openStream_local_range) simp_all
  then show "openStream_local cs (Some (Some (Num 0), Some (Num (int (length cs) - 1)))) = Inr (Readable cs)"
    using assms by (simp add: slice_whole)
qed

lemma pipeFile_local_whole:
  assumes nt: "\<not> truthy (range_header req)"
    and i: "inner rf = Some i" and z: "json_size i = Some (Num (int (length cs)))"
    and ne: "0 < length cs" and sz: "int (length cs) \<le> 9007199254740992"
  shows "pipeFile [] (\<lambda>f. openStream_local cs) req res rf =
          Inr (res\<lparr>statusCode := 200, contentLength := Some (Num (int (length cs))),
                   body := Piped cs\<rparr>)"
proof -
  note w = whole_file_bounds [OF ne sz]
  have rb: "range_bounds req rf = Inr (Num 0, Num (int (length cs) - 1))"
    using range_bounds_no_header [OF nt i] by (simp add: z to_number_def w(1))
  show ?thesis
    by (simp add: pipeFile_eq [OF i rb] acquire_stream_no_plugins w(2) w(3) nt pipe_stream_def
        del: jsnum_add.simps)
qed

lemma server_pipeFile_local_whole:
  assumes nt: "\<not> truthy (range_header req)"
    and i: "inner rf = Some i" and z: "json_size i = Some z0"
    and fs: "file_size rf = Some (Num (int (length cs)))"
    and ne: "0 < length cs" and sz: "int (length cs) \<le> 9007199254740992"
  shows "\<exists>res'. server_pipeFile (\<lambda>f. openStream_local cs) req res rf = Inr res'
           \<and> contentLength res' = Some (Num (int (length cs))) \<and> body res' = Piped cs"
proof -
  note w = whole_file_bounds [OF ne sz]
  show ?thesis
    by (simp add: server_pipeFile_eq [OF i z resolveRange_falsy [OF nt]] nullish_assign_def
        to_number_def fs w nt pipe_stream_def del: jsnum_add.simps)
qed

text \<open>
  C4. For a local file with bytes \<open>cs\<close>: the stream opened with no range delivers
  exactly \<open>cs\<close>, all \<open>length cs\<close> bytes; the stream opened with a range
  \<open>[a, b]\<close>, \<open>0 \<le> a \<le> b < length cs\<close>, delivers exactly \<open>b - a + 1\<close> bytes,
  byte \<open>k\<close> of it being byte \<open>a + k\<close> of the file. In both versions of
  \<open>pipeFile\<close> the content-length header is \<open>(end + 1) - start\<close> for the bounds the
  function computed, whenever a stream is obtained that does not fail. Served from the
  local file (of at most \<open>2^53\<close> bytes), a ranged request is answered in both versions
  with content-length \<open>b - a + 1\<close> and that slice as body, and a request without a
  Range header for a non-empty file with content-length \<open>size\<close> and the whole file as
  body.
\<close>

theorem C4_stream_and_content_length:
  "openStream_local cs None = Inr (Readable cs)
   \<and> (0 \<le> a \<and> a \<le> b \<and> b < int (length cs) \<longrightarrow>
        openStream_local cs (Some (Some (Num a), Some (Num b))) = Inr (Readable (slice cs a b))
        \<and> int (length (slice cs a b)) = b - a + 1
        \<and> (\<forall>k < nat (b - a + 1). slice cs a b ! k = cs ! (nat a + k)))
   \<and> (inner rf = Some i \<and> range_bounds req rf = Inr (s, e)
        \<and> acquire_stream plugins crs rf (Some (Some s, Some e)) = Inr stream
        \<and> stream \<noteq> Failing \<longrightarrow>
        (\<exists>res'. pipeFile plugins crs req res rf = Inr res'
           \<and> contentLength res' = Some (jsnum_sub (jsnum_add e (Num 1)) s)))
   \<and> (inner rf = Some i \<and> json_size i = Some sz
        \<and> resolveRange (range_header req) = (start0, end0)
        \<and> crs rf (Some (Some (to_number (nullish_assign start0 (Num 0))),
                           Some (to_number (nullish_assign end0
                                   (jsnum_sub (to_number (file_size rf)) (Num 1)))))) = Inr stream
        \<and> stream \<noteq> Failing \<longrightarrow>
        (\<exists>res'. server_pipeFile crs req res rf = Inr res'
           \<and> contentLength res' =
               Some (jsnum_sub
                      (jsnum_add (to_number (nullish_assign end0
                                    (jsnum_sub (to_number (file_size rf)) (Num 1)))) (Num 1))
                      (to_number (nullish_assign start0 (Num 0))))))
   \<and> (0 \<le> a \<and> a \<le> b \<and> b < int (length cs) \<and> int (length cs) \<le> 9007199254740992
        \<and> inner rf = Some i
        \<and> resolveRange (range_header req) = (Some (Num a), Some (Num b)) \<longrightarrow>
        pipeFile [] (\<lambda>f. openStream_local cs) req res rf =
          Inr (res\<lparr>statusCode := 206, contentLength := Some (Num (b - a + 1)),
                   contentRange := Some (Num a, Num b, json_size i),
                   acceptRanges := Some ''bytes'', body := Piped (slice cs a b)\<rparr>))
   \<and> (0 \<le> a \<and> a \<le> b \<and> b < int (length cs) \<and> int (length cs) \<le> 9007199254740992
        \<and> inner rf = Some i \<and> json_size i = Some sz
        \<and> resolveRange (range_header req) = (Some (Num a), Some (Num b)) \<longrightarrow>
        server_pipeFile (\<lambda>f. openStream_local cs) req res rf =
          Inr (res\<lparr>statusCode := 206, contentLength := Some (Num (b - a + 1)),
                   contentRange := Some (Num a, Num b, Some sz),
                   acceptRanges := Some ''bytes'', body := Piped (slice cs a b)\<rparr>))
   \<and> (\<not> truthy (range_header req) \<and> inner rf = Some i
        \<and> json_size i = Some (Num (int (length cs)))
        \<and> 0 < length cs \<and> int (length cs) \<le> 9007199254740992 \<longrightarrow>
        pipeFile [] (\<lambda>f. openStream_local cs) req res rf =
          Inr (res\<lparr>statusCode := 200, contentLength := Some (Num (int (length cs))),
                   body := Piped cs\<rparr>))
   \<and> (\<not> truthy (range_header req) \<and> inner rf = Some i \<and> json_size i = Some sz
        \<and> file_size rf = Some (Num (int (length cs)))
        \<and> 0 < length cs \<and> int (length cs) \<le> 9007199254740992 \<longrightarrow>
        (\<exists>res'. server_pipeFile (\<lambda>f. openStream_local cs) req res rf = Inr res'
           \<and> contentLength res' = Some (Num (int (length cs))) \<and> body res' = Piped cs))"
proof (intro conjI impI)
  show "openStream_local cs None = Inr (Readable cs)"
    by (rule openStream_local_whole)
next
  assume h: "0 \<le> a \<and> a \<le> b \<and> b < int (length cs)"
  then show "openStream_local cs (Some (Some (Num a), Some (Num b))) = Inr (Readable (slice cs a b))"
    by (simp add: openStream_local_range)
  from h show "int (length (slice cs a b)) = b - a + 1"
    by (simp add: slice_length)
  from h show "\<forall>k < nat (b - a + 1). slice cs a b ! k = cs ! (nat a + k)"
    by (simp add: slice_nth)
next
  assume h: "inner rf = Some i \<and> range_bounds req rf = Inr (s, e)
        \<and> acquire_stream plugins crs rf (Some (Some s, Some e)) = Inr stream
        \<and> stream \<noteq> Failing"
  then have i: "inner rf = Some i" and rb: "range_bounds req rf = Inr (s, e)"
    by simp_all
  from h show "\<exists>res'. pipeFile plugins crs req res rf = Inr res'
           \<and> contentLength res' = Some (jsnum_sub (jsnum_add e (Num 1)) s)"
    by (simp add: pipeFile_eq [OF i rb] pipe_stream_contentLength)
next
  assume h: "inner rf = Some i \<and> json_size i = Some sz
        \<and> resolveRange (range_header req) = (start0, end0)
        \<and> crs rf (Some (Some (to_number (nullish_assign start0 (Num 0))),
                           Some (to_number (nullish_assign end0
                                   (jsnum_sub (to_number (file_size rf)) (Num 1)))))) = Inr stream
        \<and> stream \<noteq> Failing"
  then have i: "inner rf = Some i" and z: "json_size i = Some sz"
    and rr: "resolveRange (range_header req) = (start0, end0)"
    by simp_all
  from h show "\<exists>res'. server_pipeFile crs req res rf = Inr res'
           \<and> contentLength res' =
               Some (jsnum_sub
                      (jsnum_add (to_number (nullish_assign end0
                                    (jsnum_sub (to_number (file_size rf)) (Num 1)))) (Num 1))
                      (to_number (nullish_assign start0 (Num 0))))"
    by (simp add: server_pipeFile_eq [OF i z rr] Let_def pipe_stream_contentLength)
next
  assume "0 \<le> a \<and> a \<le> b \<and> b < int (length cs) \<and> int (length cs) \<le> 9007199254740992
        \<and> inner rf = Some i
        \<and> resolveRange (range_header req) = (Some (Num a), Some (Num b))"
  then have r: "0 \<le> a" "a \<le> b" "b < int (length cs)"
    and sz: "int (length cs) \<le> 9007199254740992" and i: "inner rf = Some i"
    and rr: "resolveRange (range_header req) = (Some (Num a), Some (Num b))"
    by blast+
  show "pipeFile [] (\<lambda>f. openStream_local cs) req res rf =
          Inr (res\<lparr>statusCode := 206, contentLength := Some (Num (b - a + 1)),
                   contentRange := Some (Num a, Num b, json_size i),
                   acceptRanges := Some ''bytes'', body := Piped (slice cs a b)\<rparr>)"
    by (rule pipeFile_local_ranged [OF r sz i rr])
next
  assume "0 \<le> a \<and> a \<le> b \<and> b < int (length cs) \<and> int (length cs) \<le> 9007199254740992
        \<and> inner rf = Some i \<and> json_size i = Some sz
        \<and> resolveRange (range_header req) = (Some (Num a), Some (Num b))"
  then have r: "0 \<le> a" "a \<le> b" "b < int (length cs)"
    and sz: "int (length cs) \<le> 9007199254740992" and i: "inner rf = Some i"
    and z: "json_size i = Some sz"
    and rr: "resolveRange (range_header req) = (Some (Num a), Some (Num b))"
    by blast+
  show "server_pipeFile (\<lambda>f. openStream_local cs) req res rf =
          Inr (res\<lparr>statusCode := 206, contentLength := Some (Num (b - a + 1)),
                   contentRange := Some (Num a, Num b, Some sz),
                   acceptRanges := Some ''bytes'', body := Piped (slice cs a b)\<rparr>)"
    by (rule server_pipeFile_local_ranged [OF r sz i z rr])
next
  assume "\<not> truthy (range_header req) \<and> inner rf = Some i
        \<and> json_size i = Some (Num (int (length cs)))
        \<and> 0 < length cs \<and> int (length cs) \<le> 9007199254740992"
  then have nt: "\<not> truthy (range_header req)" and i: "inner rf = Some i"
    and z: "json_size i = Some (Num (int (length cs)))"
    and ne: "0 < length cs" and sz: "int (length cs) \<le> 9007199254740992"
    by blast+
  show "pipeFile [] (\<lambda>f. openStream_local cs) req res rf =
          Inr (res\<lparr>statusCode := 200, contentLength := Some (Num (int (length cs))),
                   body := Piped cs\<rparr>)"
    by (rule pipeFile_local_whole [OF nt i z ne sz])
next
  assume "\<not> truthy (range_header req) \<and> inner rf = Some i \<and> json_size i = Some sz
        \<and> file_size rf = Some (Num (int (length cs)))
        \<and> 0 < length cs \<and> int (length cs) \<le> 9007199254740992"
  then have nt: "\<not> truthy (range_header req)" and i: "inner rf = Some i"
    and z: "json_size i = Some sz" and fs: "file_size rf = Some (Num (int (length cs)))"
    and ne: "0 < length cs" and sz: "int (length cs) \<le> 9007199254740992"
    by blast+
  show "\<exists>res'. server_pipeFile (\<lambda>f. openStream_local cs) req res rf = Inr res'
           \<and> contentLength res' = Some (Num (int (length cs))) \<and> body res' = Piped cs"
    by (rule server_pipeFile_local_whole [OF nt i z fs ne sz])
qed

lemma resolveRange_2_4: "resolveRange (Some ''bytes=2-4'') = (Some (Num 2), Some (Num 4))"
  by (simp add: resolveRange_def truthy_def startsWith_def removePrefix_def trim_def
      is_space_def parseInt_def digit_of_def to_double_exact)

lemma resolveRange_0_99: "resolveRange (Some ''bytes=0-99'') = (Some (Num 0), Some (Num 99))"
  by (simp add: resolveRange_def truthy_def startsWith_def removePrefix_def trim_def
      is_space_def parseInt_def digit_of_def to_double_exact)

lemma resolveRange_20_30: "resolveRange (Some ''bytes=20-30'') = (Some (Num 20), Some (Num 30))"
  by (simp add: resolveRange_def truthy_def startsWith_def removePrefix_def trim_def
      is_space_def parseInt_def digit_of_def to_double_exact)

lemma resolveRange_5_99: "resolveRange (Some ''bytes=5-99'') = (Some (Num 5), Some (Num 99))"
  by (simp add: resolveRange_def truthy_def startsWith_def removePrefix_def trim_def
      is_space_def parseInt_def digit_of_def to_double_exact)

lemma resolveRange_None: "resolveRange None = (None, None)"
  by (simp add: resolveRange_def truthy_def)

theorem C4_stream_and_content_length_witness:
  "(0::int) \<le> 2 \<and> (2::int) \<le> 4 \<and> (4::int) < int (length [0, 1, 2, 3, 4, 5, 6, 7, 8, 9 :: byte])
   \<and> resolveRange (Some ''bytes=2-4'') = (Some (Num 2), Some (Num 4))
   \<and> \<not> truthy None
   \<and> openStream_local [0, 1, 2, 3, 4, 5, 6, 7, 8, 9] (Some (Some (Num 2), Some (Num 4)))
       = Inr (Readable [2, 3, 4])
   \<and> pipeFile [] (\<lambda>f. openStream_local [0, 1, 2, 3, 4, 5, 6, 7, 8, 9])
         \<lparr>url = ''/file/a.txt'', range_header = Some ''bytes=2-4''\<rparr> new_response
         \<lparr>inner = Some \<lparr>star_type = Some ''text/plain'', json_size = Some (Num 10)\<rparr>,
           file_type = Some ''text/plain'', file_size = Some (Num 10),
           origin = Local ''/srv/a.txt''\<rparr>
       = Inr \<lparr>statusCode = 206, contentType = None, expires = None, cacheControl = None,
               contentLength = Some (Num 3),
               contentRange = Some (Num 2, Num 4, Some (Num 10)),
               acceptRanges = Some ''bytes'', body = Piped [2, 3, 4]\<rparr>
   \<and> server_pipeFile (\<lambda>f. openStream_local [0, 1, 2, 3, 4, 5, 6, 7, 8, 9])
         \<lparr>url = ''/file/a.txt'', range_header = Some ''bytes=2-4''\<rparr> new_response
         \<lparr>inner = Some \<lparr>star_type = Some ''text/plain'', json_size = Some (Num 10)\<rparr>,
           file_type = Some ''text/plain'', file_size = Some (Num 10),
           origin = Local ''/srv/a.txt''\<rparr>
       = Inr \<lparr>statusCode = 206, contentType = None, expires = None, cacheControl = None,
               contentLength = Some (Num 3),
               contentRange = Some (Num 2, Num 4, Some (Num 10)),
               acceptRanges = Some ''bytes'', body = Piped [2, 3, 4]\<rparr>
   \<and> pipeFile [] (\<lambda>f. openStream_local [0, 1, 2, 3, 4, 5, 6, 7, 8, 9])
         \<lparr>url = ''/file/a.txt'', range_header = None\<rparr> new_response
         \<lparr>inner = Some \<lparr>star_type = Some ''text/plain'', json_size = Some (Num 10)\<rparr>,
           file_type = Some ''text/plain'', file_size = Some (Num 10),
           origin = Local ''/srv/a.txt''\<rparr>
       = Inr \<lparr>statusCode = 200, contentType = None, expires = None, cacheControl = None,
               contentLength = Some (Num 10), contentRange = None, acceptRanges = None,
               body = Piped [0, 1, 2, 3, 4, 5, 6, 7, 8, 9]\<rparr>
   \<and> (\<exists>res'. server_pipeFile (\<lambda>f. openStream_local [0, 1, 2, 3, 4, 5, 6, 7, 8, 9])
         \<lparr>url = ''/file/a.txt'', range_header = None\<rparr> new_response
         \<lparr>inner = Some \<lparr>star_type = Some ''text/plain'', json_size = Some (Num 10)\<rparr>,
           file_type = Some ''text/plain'', file_size = Some (Num 10),
           origin = Local ''/srv/a.txt''\<rparr> = Inr res'
        \<and> contentLength res' = Some (Num 10)
        \<and> body res' = Piped [0, 1, 2, 3, 4, 5, 6, 7, 8, 9])"
proof -
  let ?cs = "[0, 1, 2, 3, 4, 5, 6, 7, 8, 9] :: byte list"
  let ?i = "\<lparr>star_type = Some ''text/plain'', json_size = Some (Num 10)\<rparr>"
  let ?f = "\<lparr>inner = Some ?i, file_type = Some ''text/plain'', file_size = Some (Num 10),
             origin = Local ''/srv/a.txt''\<rparr>"
  let ?req = "\<lparr>url = ''/file/a.txt'', range_header = Some ''bytes=2-4''\<rparr>"
  let ?plain = "\<lparr>url = ''/file/a.txt'', range_header = None\<rparr>"
  let ?crs = "\<lambda>f :: ResolvedFile. openStream_local ?cs"
  have h: "(0::int) \<le> 2 \<and> (2::int) \<le> 4 \<and> (4::int) < int (length ?cs)" by simp
  have big: "int (length ?cs) \<le> 9007199254740992" "0 < length ?cs" by simp_all
  have i: "inner ?f = Some ?i" by simp
  have z: "json_size ?i = Some (Num 10)" "json_size ?i = Some (Num (int (length ?cs)))"
    "file_size ?f = Some (Num (int (length ?cs)))" by simp_all
  have rr: "resolveRange (range_header ?req) = (Some (Num 2), Some (Num 4))"
    by (simp add: resolveRange_2_4)
  have nt: "\<not> truthy (range_header ?plain)" by (simp add: truthy_def)
  have sl: "slice ?cs 2 4 = [2, 3, 4]" by (simp add: slice_def)
  note c4 = C4_stream_and_content_length [where cs = ?cs and a = 2 and b = 4 and rf = ?f
      and i = ?i and sz = "Num 10" and req = ?req and res = new_response]
  note c4' = C4_stream_and_content_length [where cs = ?cs and rf = ?f
      and i = ?i and sz = "Num 10" and req = ?plain and res = new_response]
  from c4 h
  have o: "openStream_local ?cs (Some (Some (Num 2), Some (Num 4))) = Inr (Readable (slice ?cs 2 4))"
    by blast
  from c4 h big i rr
  have p: "pipeFile [] ?crs ?req new_response ?f =
          Inr (new_response\<lparr>statusCode := 206, contentLength := Some (Num (4 - 2 + 1)),
                   contentRange := Some (Num 2, Num 4, json_size ?i),
                   acceptRanges := Some ''bytes'', body := Piped (slice ?cs 2 4)\<rparr>)"
    by blast
  from c4 h big i z(1) rr
  have q: "server_pipeFile ?crs ?req new_response ?f =
          Inr (new_response\<lparr>statusCode := 206, contentLength := Some (Num (4 - 2 + 1)),
                   contentRange := Some (Num 2, Num 4, Some (Num 10)),
                   acceptRanges := Some ''bytes'', body := Piped (slice ?cs 2 4)\<rparr>)"
    by blast
  from c4' nt i z(2) big
  have p0: "pipeFile [] ?crs ?plain new_response ?f =
          Inr (new_response\<lparr>statusCode := 200, contentLength := Some (Num (int (length ?cs))),
                   body := Piped ?cs\<rparr>)"
    by blast
  from c4' nt i z(1) z(3) big
  have q0: "\<exists>res'. server_pipeFile ?crs ?plain new_response ?f = Inr res'
           \<and> contentLength res' = Some (Num (int (length ?cs))) \<and> body res' = Piped ?cs"
    by blast
  from q0 have q0': "\<exists>res'. server_pipeFile ?crs ?plain new_response ?f = Inr res'
           \<and> contentLength res' = Some (Num 10) \<and> body res' = Piped ?cs"
    by simp
  have a1: "openStream_local ?cs (Some (Some (Num 2), Some (Num 4))) = Inr (Readable [2, 3, 4])"
    using o by (simp only: sl)
  have a2: "pipeFile [] ?crs ?req new_response ?f =
       Inr \<lparr>statusCode = 206, contentType = None, expires = None, cacheControl = None,
               contentLength = Some (Num 3),
               contentRange = Some (Num 2, Num 4, Some (Num 10)),
               acceptRanges = Some ''bytes'', body = Piped [2, 3, 4]\<rparr>"
    unfolding p sl by (simp add: new_response_def)
  have a3: "server_pipeFile ?crs ?req new_response ?f =
       Inr \<lparr>statusCode = 206, contentType = None, expires = None, cacheControl = None,
               contentLength = Some (Num 3),
               contentRange = Some (Num 2, Num 4, Some (Num 10)),
               acceptRanges = Some ''bytes'', body = Piped [2, 3, 4]\<rparr>"
    unfolding q sl by (simp add: new_response_def)
  have a4: "pipeFile [] ?crs ?plain new_response ?f =
       Inr \<lparr>statusCode = 200, contentType = None, expires = None, cacheControl = None,
               contentLength = Some (Num 10), contentRange = None, acceptRanges = None,
               body = Piped ?cs\<rparr>"
    unfolding p0 by (simp add: new_response_def)
  have t0: "\<not> truthy None" by (simp add: truthy_def)
  from h resolveRange_2_4 t0 a1 a2 a3 a4 q0' show ?thesis
    by (intro conjI) blast+
qed

lemma openStream_local_error: "openStream_local cs opts = Inl err \<Longrightarrow> err = RangeError"
  by (auto simp: openStream_local_def Let_def split: option.splits prod.splits jsnum.splits if_splits)

lemma pipeFile_opener_error:
  assumes "inner rf = Some i" and "range_bounds req rf = Inr (s, e)"
    and "crs rf (Some (Some s, Some e)) = Inl err"
  shows "pipeFile [] crs req res rf = Inl err"
  using assms(3) by (simp add: pipeFile_eq [OF assms(1) assms(2)] acquire_stream_no_plugins)

lemma pipeFile_start_beyond:
  assumes i: "inner rf = Some i"
    and rr: "resolveRange (range_header req) = (Some (Num a), e0)"
    and b: "int (length cs) \<le> a"
  shows "pipeFile [] (\<lambda>f. openStream_local cs) req res rf = Inl RangeError"
proof -
  define e where "e = (case e0 of None \<Rightarrow> jsnum_sub (to_number (json_size i)) (Num 1)
                        | Some v \<Rightarrow> v)"
  have rb: "range_bounds req rf = Inr (Num a, e)"
    using range_bounds_general [OF rr i] by (simp add: e_def)
  have os: "openStream_local cs (Some (Some (Num a), Some e)) = Inl RangeError"
    by (rule openStream_local_beyond [OF b])
  show ?thesis
    using pipeFile_opener_error [where crs = "\<lambda>f. openStream_local cs", OF i rb] os by simp
qed

lemma server_pipeFile_start_beyond:
  assumes i: "inner rf = Some i" and z: "json_size i = Some sz"
    and rr: "resolveRange (range_header req) = (Some (Num a), e0)"
    and b: "int (length cs) \<le> a"
  shows "server_pipeFile (\<lambda>f. openStream_local cs) req res rf = Inl RangeError"
  by (simp add: server_pipeFile_eq [OF i z rr] Let_def nullish_assign_def to_number_def
      openStream_local_beyond [OF b])

text \<open>
  C5. A local stream opened with a range either fails with a \<open>RangeError\<close> or delivers
  a non-empty slice \<open>[lo, hi]\<close> of the file with \<open>0 \<le> lo \<le> hi < size\<close>: for a start
  inside the file the end is clamped to the last byte, and for a start at or beyond the
  end of the file the result is the \<open>RangeError\<close>, whatever the end. \<open>pipeFile\<close> hands
  its bounds to the opener and passes an exception of the opener on to its caller, so in
  both versions a request whose start lies beyond the end of the file ends in that
  \<open>RangeError\<close> and in no response stream.
\<close>

theorem C5_range_clamped_or_error:
  "(openStream_local cs (Some (st, en)) = Inl RangeError
      \<or> (\<exists>lo hi. 0 \<le> lo \<and> lo \<le> hi \<and> hi < int (length cs)
            \<and> openStream_local cs (Some (st, en)) = Inr (Readable (slice cs lo hi))))
   \<and> (0 \<le> a \<and> a < int (length cs) \<and> a \<le> b \<longrightarrow>
        openStream_local cs (Some (Some (Num a), Some (Num b))) =
          Inr (Readable (slice cs a (min b (int (length cs) - 1)))))
   \<and> (int (length cs) \<le> a \<longrightarrow>
        openStream_local cs (Some (Some (Num a), en)) = Inl RangeError)
   \<and> (inner rf = Some i \<and> range_bounds req rf = Inr (s, e)
        \<and> crs rf (Some (Some s, Some e)) = Inl err \<longrightarrow>
        pipeFile [] crs req res rf = Inl err)
   \<and> (inner rf = Some i \<and> resolveRange (range_header req) = (Some (Num a), e0)
        \<and> int (length cs) \<le> a \<longrightarrow>
        pipeFile [] (\<lambda>f. openStream_local cs) req res rf = Inl RangeError)
   \<and> (inner rf = Some i \<and> json_size i = Some sz
        \<and> resolveRange (range_header req) = (Some (Num a), e0)
        \<and> int (length cs) \<le> a \<longrightarrow>
        server_pipeFile (\<lambda>f. openStream_local cs) req res rf = Inl RangeError)"
proof (intro conjI impI)
  show "openStream_local cs (Some (st, en)) = Inl RangeError
      \<or> (\<exists>lo hi. 0 \<le> lo \<and> lo \<le> hi \<and> hi < int (length cs)
            \<and> openStream_local cs (Some (st, en)) = Inr (Readable (slice cs lo hi)))"
  proof (cases "openStream_local cs (Some (st, en))")
    case (Inl err)
    then show ?thesis using openStream_local_error [OF Inl] by simp
  next
    case (Inr r)
    then show ?thesis using openStream_local_ranged_result [OF Inr] by auto
  qed
next
  assume "0 \<le> a \<and> a < int (length cs) \<and> a \<le> b"
  then show "openStream_local cs (Some (Some (Num a), Some (Num b))) =
          Inr (Readable (slice cs a (min b (int (length cs) - 1))))"
    by (simp add: openStream_local_clamped)
next
  assume "int (length cs) \<le> a"
  then show "openStream_local cs (Some (Some (Num a), en)) = Inl RangeError"
    by (rule openStream_local_beyond)
next
  assume "inner rf = Some i \<and> range_bounds req rf = Inr (s, e)
        \<and> crs rf (Some (Some s, Some e)) = Inl err"
  then have "inner rf = Some i" "range_bounds req rf = Inr (s, e)"
    "crs rf (Some (Some s, Some e)) = Inl err" by blast+
  then show "pipeFile [] crs req res rf = Inl err"
    by (rule pipeFile_opener_error)
next
  assume "inner rf = Some i \<and> resolveRange (range_header req) = (Some (Num a), e0)
        \<and> int (length cs) \<le> a"
  then have "inner rf = Some i" "resolveRange (range_header req) = (Some (Num a), e0)"
    "int (length cs) \<le> a" by blast+
  then show "pipeFile [] (\<lambda>f. openStream_local cs) req res rf = Inl RangeError"
    by (rule pipeFile_start_beyond)
next
  assume "inner rf = Some i \<and> json_size i = Some sz
        \<and> resolveRange (range_header req) = (Some (Num a), e0)
        \<and> int (length cs) \<le> a"
  then have "inner rf = Some i" "json_size i = Some sz"
    "resolveRange (range_header req) = (Some (Num a), e0)" "int (length cs) \<le> a" by blast+
  then show "server_pipeFile (\<lambda>f. openStream_local cs) req res rf = Inl RangeError"
    by (rule server_pipeFile_start_beyond)
qed

theorem C5_range_clamped_or_error_witness:
  "(0::int) \<le> 5 \<and> (5::int) < int (length [0, 1, 2, 3, 4, 5, 6, 7, 8, 9 :: byte]) \<and> (5::int) \<le> 99
   \<and> openStream_local [0, 1, 2, 3, 4, 5, 6, 7, 8, 9] (Some (Some (Num 5), Some (Num 99)))
       = Inr (Readable [5, 6, 7, 8, 9])
   \<and> int (length [0, 1, 2, 3, 4, 5, 6, 7, 8, 9 :: byte]) \<le> 20
   \<and> resolveRange (Some ''bytes=20-30'') = (Some (Num 20), Some (Num 30))
   \<and> openStream_local [0, 1, 2, 3, 4, 5, 6, 7, 8, 9] (Some (Some (Num 20), Some (Num 30)))
       = Inl RangeError
   \<and> pipeFile [] (\<lambda>f. openStream_local [0, 1, 2, 3, 4, 5, 6, 7, 8, 9])
         \<lparr>url = ''/file/a.txt'', range_header = Some ''bytes=20-30''\<rparr> new_response
         \<lparr>inner = Some \<lparr>star_type = Some ''text/plain'', json_size = Some (Num 10)\<rparr>,
           file_type = Some ''text/plain'', file_size = Some (Num 10),
           origin = Local ''/srv/a.txt''\<rparr>
       = Inl RangeError
   \<and> server_pipeFile (\<lambda>f. openStream_local [0, 1, 2, 3, 4, 5, 6, 7, 8, 9])
         \<lparr>url = ''/file/a.txt'', range_header = Some ''bytes=20-30''\<rparr> new_response
         \<lparr>inner = Some \<lparr>star_type = Some ''text/plain'', json_size = Some (Num 10)\<rparr>,
           file_type = Some ''text/plain'', file_size = Some (Num 10),
           origin = Local ''/srv/a.txt''\<rparr>
       = Inl RangeError"
proof -
  let ?cs = "[0, 1, 2, 3, 4, 5, 6, 7, 8, 9] :: byte list"
  let ?i = "\<lparr>star_type = Some ''text/plain'', json_size = Some (Num 10)\<rparr>"
  let ?f = "\<lparr>inner = Some ?i, file_type = Some ''text/plain'', file_size = Some (Num 10),
             origin = Local ''/srv/a.txt''\<rparr>"
  let ?req = "\<lparr>url = ''/file/a.txt'', range_header = Some ''bytes=20-30''\<rparr>"
  have h1: "(0::int) \<le> 5 \<and> (5::int) < int (length ?cs) \<and> (5::int) \<le> 99" by simp
  have h2: "int (length ?cs) \<le> 20" by simp
  have i: "inner ?f = Some ?i" and z: "json_size ?i = Some (Num 10)" by simp_all
  have rr: "resolveRange (range_header ?req) = (Some (Num 20), Some (Num 30))"
    by (simp add: resolveRange_20_30)
  have sl: "slice ?cs 5 (min 99 (int (length ?cs) - 1)) = [5, 6, 7, 8, 9]"
    by (simp add: slice_def)
  note c5 = C5_range_clamped_or_error [where cs = ?cs and a = 5 and b = 99]
  note c5' = C5_range_clamped_or_error [where cs = ?cs and a = 20 and en = "Some (Num 30)"
      and ?e0.0 = "Some (Num 30)" and rf = ?f and i = ?i and sz = "Num 10" and req = ?req
      and res = new_response]
  from c5 h1
  have "openStream_local ?cs (Some (Some (Num 5), Some (Num 99))) =
          Inr (Readable (slice ?cs 5 (min 99 (int (length ?cs) - 1))))"
    by blast
  then have a1: "openStream_local ?cs (Some (Some (Num 5), Some (Num 99))) = Inr (Readable [5, 6, 7, 8, 9])"
    by (simp only: sl)
  from c5' h2
  have a2: "openStream_local ?cs (Some (Some (Num 20), Some (Num 30))) = Inl RangeError"
    by blast
  from c5' i rr h2
  have a3: "pipeFile [] (\<lambda>f. openStream_local ?cs) ?req new_response ?f = Inl RangeError"
    by blast
  from c5' i z rr h2
  have a4: "server_pipeFile (\<lambda>f. openStream_local ?cs) ?req new_response ?f = Inl RangeError"
    by blast
  from h1 a1 h2 resolveRange_20_30 a2 a3 a4 show ?thesis
    by (intro conjI) blast+
qed

text \<open>
  The headers \<open>pipeFile\<close> declares come from the parsed bounds as they are: for
  \<open>bytes=5-99\<close> on a file of 10 bytes the stream is the clamped slice of 5 bytes, under
  a content-length of 95 and a content-range of \<open>5-99/10\<close>.
\<close>

lemma pipeFile_declares_parsed_bounds:
  "pipeFile [] (\<lambda>f. openStream_local [0, 1, 2, 3, 4, 5, 6, 7, 8, 9])
         \<lparr>url = ''/file/a.txt'', range_header = Some ''bytes=5-99''\<rparr> new_response
         \<lparr>inner = Some \<lparr>star_type = Some ''text/plain'', json_size = Some (Num 10)\<rparr>,
           file_type = Some ''text/plain'', file_size = Some (Num 10),
           origin = Local ''/srv/a.txt''\<rparr>
       = Inr \<lparr>statusCode = 206, contentType = None, expires = None, cacheControl = None,
               contentLength = Some (Num 95),
               contentRange = Some (Num 5, Num 99, Some (Num 10)),
               acceptRanges = Some ''bytes'', body = Piped [5, 6, 7, 8, 9]\<rparr>"
proof -
  let ?cs = "[0, 1, 2, 3, 4, 5, 6, 7, 8, 9] :: byte list"
  let ?i = "\<lparr>star_type = Some ''text/plain'', json_size = Some (Num 10)\<rparr>"
  let ?f = "\<lparr>inner = Some ?i, file_type = Some ''text/plain'', file_size = Some (Num 10),
             origin = Local ''/srv/a.txt''\<rparr>"
  let ?req = "\<lparr>url = ''/file/a.txt'', range_header = Some ''bytes=5-99''\<rparr>"
  have i: "inner ?f = Some ?i" by simp
  have rb: "range_bounds ?req ?f = Inr (Num 5, Num 99)"
    by (simp add: range_bounds_parsed resolveRange_5_99)
  have os: "openStream_local ?cs (Some (Some (Num 5), Some (Num 99))) = Inr (Readable [5, 6, 7, 8, 9])"
    by (simp add: openStream_local_clamped slice_def)
  have len: "jsnum_sub (jsnum_add (Num 99) (Num 1)) (Num 5) = Num 95"
    using retrieved_length_exact [of 5 99] by simp
  show ?thesis
    by (simp add: pipeFile_eq [OF i rb] acquire_stream_no_plugins os len truthy_def
        pipe_stream_def new_response_def del: jsnum_add.simps)
qed

lemma pipeFile_status:
  "inner file = Some i \<Longrightarrow> range_bounds req file = Inr (s, e) \<Longrightarrow>
   acquire_stream plugins crs file (Some (Some s, Some e)) = Inr (Readable bytes) \<Longrightarrow>
   \<exists>res'. pipeFile plugins crs req res file = Inr res'
     \<and> statusCode res' = (if truthy (range_header req) then 206 else 200)
     \<and> (truthy (range_header req) \<longrightarrow> contentRange res' = Some (s, e, json_size i))"
  by (simp add: pipeFile_eq pipe_stream_def)

text \<open>
  C6. In server.ts a request without a Range header for a file of 10 bytes is answered
  with status 206, not 200: the status is chosen after the defaults have been assigned, so
  \<open>start !== undefined\<close> always holds. The later revision of the same function answers
  200 on the same request.
\<close>

theorem C6_server_ts_status_without_range:
  "server_pipeFile (\<lambda>f. openStream_local [0, 1, 2, 3, 4, 5, 6, 7, 8, 9])
         \<lparr>url = ''/file/a.txt'', range_header = None\<rparr> new_response
         \<lparr>inner = Some \<lparr>star_type = Some ''text/plain'', json_size = Some (Num 10)\<rparr>,
           file_type = Some ''text/plain'', file_size = Some (Num 10),
           origin = Local ''/srv/a.txt''\<rparr>
       = Inr \<lparr>statusCode = 206, contentType = None, expires = None, cacheControl = None,
               contentLength = Some (Num 10), contentRange = None, acceptRanges = None,
               body = Piped [0, 1, 2, 3, 4, 5, 6, 7, 8, 9]\<rparr>
   \<and> pipeFile [] (\<lambda>f. openStream_local [0, 1, 2, 3, 4, 5, 6, 7, 8, 9])
         \<lparr>url = ''/file/a.txt'', range_header = None\<rparr> new_response
         \<lparr>inner = Some \<lparr>star_type = Some ''text/plain'', json_size = Some (Num 10)\<rparr>,
           file_type = Some ''text/plain'', file_size = Some (Num 10),
           origin = Local ''/srv/a.txt''\<rparr>
       = Inr \<lparr>statusCode = 200, contentType = None, expires = None, cacheControl = None,
               contentLength = Some (Num 10), contentRange = None, acceptRanges = None,
               body = Piped [0, 1, 2, 3, 4, 5, 6, 7, 8, 9]\<rparr>"
proof -
  let ?cs = "[0, 1, 2, 3, 4, 5, 6, 7, 8, 9] :: byte list"
  let ?i = "\<lparr>star_type = Some ''text/plain'', json_size = Some (Num 10)\<rparr>"
  let ?f = "\<lparr>inner = Some ?i, file_type = Some ''text/plain'', file_size = Some (Num 10),
             origin = Local ''/srv/a.txt''\<rparr>"
  let ?req = "\<lparr>url = ''/file/a.txt'', range_header = None\<rparr>"
  have i: "inner ?f = Some ?i" by simp
  have z: "json_size ?i = Some (Num 10)" by simp
  have rr: "resolveRange (range_header ?req) = (None, None)" by (simp add: resolveRange_None)
  have nt: "\<not> truthy (range_header ?req)" by (simp add: truthy_def)
  have os: "openStream_local ?cs (Some (Some (Num 0), Some (Num 9))) = Inr (Readable ?cs)"
    by (simp add: openStream_local_def nullish_assign_def to_number_def slice_def)
  have rb: "range_bounds ?req ?f = Inr (Num 0, Num 9)"
    using range_bounds_no_header [OF nt i] by (simp add: to_number_def jsnum_sub_def to_double_exact)
  have a: "server_pipeFile (\<lambda>f. openStream_local ?cs) ?req new_response ?f =
       Inr \<lparr>statusCode = 206, contentType = None, expires = None, cacheControl = None,
               contentLength = Some (Num 10), contentRange = None, acceptRanges = None,
               body = Piped ?cs\<rparr>"
    using nt
    by (simp add: server_pipeFile_eq [OF i z rr] nullish_assign_def to_number_def os
        pipe_stream_def new_response_def jsnum_sub_def to_double_exact)
  have b: "pipeFile [] (\<lambda>f. openStream_local ?cs) ?req new_response ?f =
       Inr \<lparr>statusCode = 200, contentType = None, expires = None, cacheControl = None,
               contentLength = Some (Num 10), contentRange = None, acceptRanges = None,
               body = Piped ?cs\<rparr>"
    using nt
    by (simp add: pipeFile_eq [OF i rb] acquire_stream_no_plugins os pipe_stream_def
        new_response_def jsnum_sub_def to_double_exact)
  from a b show ?thesis by simp
qed

theorem C6_server_ts_status_without_range_witness:
  "\<exists>res'. server_pipeFile (\<lambda>f. openStream_local [0, 1, 2, 3, 4, 5, 6, 7, 8, 9])
         \<lparr>url = ''/file/a.txt'', range_header = None\<rparr> new_response
         \<lparr>inner = Some \<lparr>star_type = Some ''text/plain'', json_size = Some (Num 10)\<rparr>,
           file_type = Some ''text/plain'', file_size = Some (Num 10),
           origin = Local ''/srv/a.txt''\<rparr> = Inr res'
      \<and> statusCode res' = 206 \<and> contentRange res' = None"
  using C6_server_ts_status_without_range by simp

lemma resolve_not_found:
  "walk same tree segs = None \<or> (\<exists>children. walk same tree segs = Some (Directory children)) \<Longrightarrow>
   resolve same tree segs = None"
  by (auto simp: resolve_def)

lemma resolved_type_None: "resolved_type None = None"
  by (simp add: resolved_type_def)

lemma file_route_not_found:
  "decodeURI (url req) = Inr uri \<Longrightarrow>
   \<not> truthy (resolved_type
        (resolveFile (split (removeSuffix (removePrefix uri ''/file/'') ''/'') (CHR ''/'')))) \<Longrightarrow>
   file_route decodeURI resolveFile plugins crs now cacheMaxAge req =
     Inr (new_response\<lparr>statusCode := 404, body := Ended\<rparr>)"
  by (simp add: file_route_def Let_def)

lemma server_file_route_not_found:
  "decodeURI (url req) = Inr uri \<Longrightarrow>
   resolveFile (split (removePrefix uri ''/file/'') (CHR ''/'')) = None
   \<or> (\<exists>f i. resolveFile (split (removePrefix uri ''/file/'') (CHR ''/'')) = Some f
          \<and> inner f = Some i \<and> star_type i = None) \<Longrightarrow>
   server_file_route decodeURI resolveFile crs cacheMaxAge req =
     Inr (new_response\<lparr>statusCode := 404, body := Ended\<rparr>)"
  by (auto simp: server_file_route_def Let_def)

text \<open>
  C7. When a segment of the requested path matches no entry of the merged tree, or the
  path ends at a Directory, resolution gives no file; and whenever the URI decodes, both
  versions of the route answer such a request with status 404 and an ended, empty
  response, whatever the plugins and the stream opener are: no stream is opened and no
  500 is sent. The same holds for any resolver that returns nothing or an entry without a
  declared type.
\<close>

theorem C7_not_found:
  "(walk same tree segs = None \<or> (\<exists>children. walk same tree segs = Some (Directory children))
      \<longrightarrow> resolve same tree segs = None)
   \<and> (decodeURI (url req) = Inr uri
        \<and> (walk same tree (split (removeSuffix (removePrefix uri ''/file/'') ''/'') (CHR ''/'')) = None
           \<or> (\<exists>children. walk same tree
                  (split (removeSuffix (removePrefix uri ''/file/'') ''/'') (CHR ''/''))
                  = Some (Directory children)))
      \<longrightarrow> file_route decodeURI (resolve same tree) plugins crs now cacheMaxAge req =
            Inr (new_response\<lparr>statusCode := 404, body := Ended\<rparr>))
   \<and> (decodeURI (url req) = Inr uri
        \<and> (walk same tree (split (removePrefix uri ''/file/'') (CHR ''/'')) = None
           \<or> (\<exists>children. walk same tree (split (removePrefix uri ''/file/'') (CHR ''/''))
                  = Some (Directory children)))
      \<longrightarrow> server_file_route decodeURI (resolve same tree) crs cacheMaxAge req =
            Inr (new_response\<lparr>statusCode := 404, body := Ended\<rparr>))
   \<and> (decodeURI (url req) = Inr uri
        \<and> \<not> truthy (resolved_type
              (resolveFile (split (removeSuffix (removePrefix uri ''/file/'') ''/'') (CHR ''/''))))
      \<longrightarrow> file_route decodeURI resolveFile plugins crs now cacheMaxAge req =
            Inr (new_response\<lparr>statusCode := 404, body := Ended\<rparr>))
   \<and> (decodeURI (url req) = Inr uri
        \<and> (resolveFile (split (removePrefix uri ''/file/'') (CHR ''/'')) = None
           \<or> (\<exists>f i. resolveFile (split (removePrefix uri ''/file/'') (CHR ''/'')) = Some f
                  \<and> inner f = Some i \<and> star_type i = None))
      \<longrightarrow> server_file_route decodeURI resolveFile crs cacheMaxAge req =
            Inr (new_response\<lparr>statusCode := 404, body := Ended\<rparr>))"
proof (intro conjI impI)
  assume "walk same tree segs = None \<or> (\<exists>children. walk same tree segs = Some (Directory children))"
  then show "resolve same tree segs = None" by (rule resolve_not_found)
next
  let ?segs = "split (removeSuffix (removePrefix uri ''/file/'') ''/'') (CHR ''/'')"
  assume h: "decodeURI (url req) = Inr uri
        \<and> (walk same tree ?segs = None
           \<or> (\<exists>children. walk same tree ?segs = Some (Directory children)))"
  then have "resolve same tree ?segs = None" by (intro resolve_not_found) simp
  then have "\<not> truthy (resolved_type (resolve same tree ?segs))"
    by (simp add: resolved_type_None truthy_def)
  with h show "file_route decodeURI (resolve same tree) plugins crs now cacheMaxAge req =
            Inr (new_response\<lparr>statusCode := 404, body := Ended\<rparr>)"
    by (intro file_route_not_found [of _ _ uri]) simp_all
next
  let ?segs = "split (removePrefix uri ''/file/'') (CHR ''/'')"
  assume h: "decodeURI (url req) = Inr uri
        \<and> (walk same tree ?segs = None
           \<or> (\<exists>children. walk same tree ?segs = Some (Directory children)))"
  then have "resolve same tree ?segs = None" by (intro resolve_not_found) simp
  with h show "server_file_route decodeURI (resolve same tree) crs cacheMaxAge req =
            Inr (new_response\<lparr>statusCode := 404, body := Ended\<rparr>)"
    by (intro server_file_route_not_found [of _ _ uri]) simp_all
next
  assume "decodeURI (url req) = Inr uri
        \<and> \<not> truthy (resolved_type
              (resolveFile (split (removeSuffix (removePrefix uri ''/file/'') ''/'') (CHR ''/''))))"
  then show "file_route decodeURI resolveFile plugins crs now cacheMaxAge req =
            Inr (new_response\<lparr>statusCode := 404, body := Ended\<rparr>)"
    by (intro file_route_not_found [of _ _ uri]) simp_all
next
  assume "decodeURI (url req) = Inr uri
        \<and> (resolveFile (split (removePrefix uri ''/file/'') (CHR ''/'')) = None
           \<or> (\<exists>f i. resolveFile (split (removePrefix uri ''/file/'') (CHR ''/'')) = Some f
                  \<and> inner f = Some i \<and> star_type i = None))"
  then show "server_file_route decodeURI resolveFile crs cacheMaxAge req =
            Inr (new_response\<lparr>statusCode := 404, body := Ended\<rparr>)"
    by (intro server_file_route_not_found [of _ _ uri]) simp_all
qed

theorem C7_not_found_witness:
  "walk (=) (Directory [(''a.txt'', File ''text/plain'' 10 (Local ''/srv/a.txt'')),
                        (''d'', Directory [])]) [''missing''] = None
   \<and> resolve (=) (Directory [(''a.txt'', File ''text/plain'' 10 (Local ''/srv/a.txt'')),
                             (''d'', Directory [])]) [''missing''] = None
   \<and> walk (=) (Directory [(''a.txt'', File ''text/plain'' 10 (Local ''/srv/a.txt'')),
                          (''d'', Directory [])]) [''d''] = Some (Directory [])
   \<and> file_route Inr
         (resolve (=) (Directory [(''a.txt'', File ''text/plain'' 10 (Local ''/srv/a.txt'')),
                                  (''d'', Directory [])]))
         [] (\<lambda>f. openStream_local [0, 1, 2]) 1000 60
         \<lparr>url = ''/file/d/'', range_header = None\<rparr>
       = Inr (new_response\<lparr>statusCode := 404, body := Ended\<rparr>)
   \<and> server_file_route Inr
         (resolve (=) (Directory [(''a.txt'', File ''text/plain'' 10 (Local ''/srv/a.txt'')),
                                  (''d'', Directory [])]))
         (\<lambda>f. openStream_local [0, 1, 2]) 60
         \<lparr>url = ''/file/d/'', range_header = None\<rparr>
       = Inr (new_response\<lparr>statusCode := 404, body := Ended\<rparr>)"
proof -
  let ?T = "Directory [(''a.txt'', File ''text/plain'' 10 (Local ''/srv/a.txt'')),
                       (''d'', Directory [])]"
  let ?req = "\<lparr>url = ''/file/d/'', range_header = None\<rparr>"
  let ?crs = "\<lambda>f :: ResolvedFile. openStream_local [0, 1, 2]"
  have d: "(Inr :: string \<Rightarrow> js_error + string) (url ?req) = Inr ''/file/d/''" by simp
  have s2: "split (removeSuffix (removePrefix ''/file/d/'' ''/file/'') ''/'') (CHR ''/'') = [''d'']"
    by (simp add: removeSuffix_def removePrefix_def startsWith_def endsWith_def)
  have s1: "split (removePrefix ''/file/d/'' ''/file/'') (CHR ''/'') = [''d'', '''']"
    by (simp add: removePrefix_def startsWith_def)
  have w0: "walk (=) ?T [''missing''] = None" by simp
  have w2: "walk (=) ?T [''d''] = Some (Directory [])" by simp
  have w1: "walk (=) ?T [''d'', ''''] = None" by simp
  note c7 = C7_not_found [where same = "(=)" and tree = ?T and segs = "[''missing'']"
      and decodeURI = Inr and req = ?req and uri = "''/file/d/''" and plugins = "[]"
      and crs = ?crs and now = 1000 and cacheMaxAge = 60
      and resolveFile = "resolve (=) ?T"]
  from c7 w0 have r0: "resolve (=) ?T [''missing''] = None" by blast
  from c7 d w2 have r2: "file_route Inr (resolve (=) ?T) [] ?crs 1000 60 ?req
      = Inr (new_response\<lparr>statusCode := 404, body := Ended\<rparr>)"
    unfolding s2 by blast
  from c7 d w1 have r1: "server_file_route Inr (resolve (=) ?T) ?crs 60 ?req
      = Inr (new_response\<lparr>statusCode := 404, body := Ended\<rparr>)"
    unfolding s1 by blast
  from w0 r0 w2 r2 r1 show ?thesis by (intro conjI)
qed

text \<open>
  C8. For a file entry, that is an entry with a non-empty \<open>"*type"\<close>, both versions
  of \<open>node.subNodeFilter\<close> keep the entry exactly when its tag is among the values of
  the configured \<open>fileType\<close> record, and drop it otherwise.
\<close>

theorem C8_subNodeFilter:
  "star_type entry = Some t \<Longrightarrow> t \<noteq> [] \<Longrightarrow>
   subNodeFilter (configured_fileTypes fileType) entry = (t \<in> snd ` set fileType)
   \<and> server_subNodeFilter (configured_fileTypes fileType) entry = (t \<in> snd ` set fileType)"
  by (simp add: subNodeFilter_def server_subNodeFilter_def configured_fileTypes_def truthy_def)

theorem C8_subNodeFilter_witness:
  "star_type \<lparr>star_type = Some ''video/mp4'', json_size = Some (Num 1000)\<rparr> = Some ''video/mp4''
   \<and> ''video/mp4'' \<noteq> []
   \<and> subNodeFilter (configured_fileTypes [(''**/*.mp4'', ''video/mp4''), (''**/*.png'', ''image/png'')])
        \<lparr>star_type = Some ''video/mp4'', json_size = Some (Num 1000)\<rparr>
   \<and> server_subNodeFilter
        (configured_fileTypes [(''**/*.mp4'', ''video/mp4''), (''**/*.png'', ''image/png'')])
        \<lparr>star_type = Some ''video/mp4'', json_size = Some (Num 1000)\<rparr>
   \<and> \<not> subNodeFilter (configured_fileTypes [(''**/*.mp4'', ''video/mp4''), (''**/*.png'', ''image/png'')])
        \<lparr>star_type = Some ''application/zip'', json_size = Some (Num 7)\<rparr>
   \<and> \<not> server_subNodeFilter
        (configured_fileTypes [(''**/*.mp4'', ''video/mp4''), (''**/*.png'', ''image/png'')])
        \<lparr>star_type = Some ''application/zip'', json_size = Some (Num 7)\<rparr>"
proof -
  let ?ft = "[(''**/*.mp4'', ''video/mp4''), (''**/*.png'', ''image/png'')]"
  let ?v = "\<lparr>star_type = Some ''video/mp4'', json_size = Some (Num 1000)\<rparr>"
  let ?z = "\<lparr>star_type = Some ''application/zip'', json_size = Some (Num 7)\<rparr>"
  have v: "star_type ?v = Some ''video/mp4''" and vn: "''video/mp4'' \<noteq> []" by simp_all
  have z: "star_type ?z = Some ''application/zip''" and zn: "''application/zip'' \<noteq> []"
    by simp_all
  from C8_subNodeFilter [OF v vn, of ?ft] C8_subNodeFilter [OF z zn, of ?ft] v vn
  show ?thesis by simp
qed

subsection \<open>Configuration\<close>

lemma defaultConfig_keys:
  "defaultConfig darwin ''publicKey'' = None"
  "defaultConfig darwin ''privateKey'' = None"
  "defaultConfig darwin ''name'' = None"
  by (simp_all add: defaultConfig_def)

lemma setupConfig_generates:
  assumes "\<not> truthy_val (config ''privateKey'')" "\<not> truthy_val (config ''publicKey'')"
    and "keyPair gen = (pk, sk)"
  shows "\<exists>config'. setupConfig gen darwin config = Inr config'
           \<and> config' ''publicKey'' = Some (JStr pk) \<and> config' ''privateKey'' = Some (JStr sk)"
  using assms
  by (simp add: setupConfig_def Let_def map_add_def defaultConfig_keys)

lemma setupConfig_derives:
  assumes "truthy_val (config ''privateKey'')" "\<not> truthy_val (config ''publicKey'')"
    and "config ''privateKey'' = Some k" "fromSecretKey gen k = Inr pk"
  shows "\<exists>config'. setupConfig gen darwin config = Inr config'
           \<and> config' ''publicKey'' = Some (JStr pk) \<and> config' ''privateKey'' = Some k"
  using assms
  by (simp add: setupConfig_def Let_def map_add_def defaultConfig_keys)

lemma setupConfig_keeps:
  assumes "truthy_val (config ''privateKey'')" "truthy_val (config ''publicKey'')"
  shows "\<exists>config'. setupConfig gen darwin config = Inr config'
           \<and> config' ''publicKey'' = config ''publicKey''
           \<and> config' ''privateKey'' = config ''privateKey''"
  using assms
  by (simp add: setupConfig_def Let_def map_add_def defaultConfig_keys)

lemma findConfig_existing:
  assumes "findFsEntryInTree files rootDir filename = Some p" and "files p = Some parsed"
    and "setupConfig gen darwin (defaultConfig darwin ++ parsed) = Inr c"
  shows "findConfig gen darwin files rootDir filename =
           (files(p \<mapsto> defaultConfig darwin ++ parsed), Inr (defaultConfig darwin ++ parsed))"
  using assms by (simp add: findConfig_def readFileSync_def Let_def)

text \<open>
  C9. \<open>setupConfig\<close> itself generates a keypair when none is supplied, derives the
  public key from a lone private key and keeps a present pair (the three lemmas above).
  \<open>findConfig\<close> does not pass this on: for an existing configuration file without
  keys (here one that only sets the port) the configuration it returns, and writes back
  to the file, has neither \<open>publicKey\<close> nor \<open>privateKey\<close>, although the call of
  \<open>setupConfig\<close> inside it computed a configuration that has both.
\<close>

theorem C9_findConfig_existing_file_without_keys:
  "snd (findConfig \<lparr>fromSecretKey = \<lambda>k. Inr ''PUB'', keyPair = (''PUB'', ''SEC''), uuidv4 = ''node-1''\<rparr>
          False [([''app'', ''srv''], ''meditree.json'') \<mapsto> [''port'' \<mapsto> JNum 8080]]
          [''app'', ''srv''] ''meditree.json'')
     = Inr (defaultConfig False ++ [''port'' \<mapsto> JNum 8080])
   \<and> (defaultConfig False ++ [''port'' \<mapsto> JNum 8080]) ''publicKey'' = None
   \<and> (defaultConfig False ++ [''port'' \<mapsto> JNum 8080]) ''privateKey'' = None
   \<and> fst (findConfig \<lparr>fromSecretKey = \<lambda>k. Inr ''PUB'', keyPair = (''PUB'', ''SEC''), uuidv4 = ''node-1''\<rparr>
          False [([''app'', ''srv''], ''meditree.json'') \<mapsto> [''port'' \<mapsto> JNum 8080]]
          [''app'', ''srv''] ''meditree.json'') ([''app'', ''srv''], ''meditree.json'')
     = Some (defaultConfig False ++ [''port'' \<mapsto> JNum 8080])
   \<and> (\<exists>c. setupConfig \<lparr>fromSecretKey = \<lambda>k. Inr ''PUB'', keyPair = (''PUB'', ''SEC''), uuidv4 = ''node-1''\<rparr>
          False (defaultConfig False ++ [''port'' \<mapsto> JNum 8080]) = Inr c
        \<and> c ''publicKey'' = Some (JStr ''PUB'') \<and> c ''privateKey'' = Some (JStr ''SEC''))"
proof -
  let ?gen = "\<lparr>fromSecretKey = \<lambda>k. Inr ''PUB'', keyPair = (''PUB'', ''SEC''), uuidv4 = ''node-1''\<rparr>"
  let ?p = "([''app'', ''srv''], ''meditree.json'')"
  let ?parsed = "[''port'' \<mapsto> JNum 8080] :: config"
  let ?files = "[?p \<mapsto> ?parsed] :: file_system"
  let ?config = "defaultConfig False ++ ?parsed"
  have pub: "?config ''publicKey'' = None" and priv: "?config ''privateKey'' = None"
    by (simp_all add: map_add_def defaultConfig_keys)
  have found: "findFsEntryInTree ?files [''app'', ''srv''] ''meditree.json'' = Some ?p"
    by simp
  have content: "?files ?p = Some ?parsed" by simp
  have "\<not> truthy_val (?config ''privateKey'')" "\<not> truthy_val (?config ''publicKey'')"
    unfolding pub priv by (simp_all add: truthy_val_def)
  moreover have "keyPair ?gen = (''PUB'', ''SEC'')" by simp
  ultimately obtain c where
    c: "setupConfig ?gen False ?config = Inr c"
       "c ''publicKey'' = Some (JStr ''PUB'')" "c ''privateKey'' = Some (JStr ''SEC'')"
    using setupConfig_generates [of ?config ?gen "''PUB''" "''SEC''" False] by blast
  have fc: "findConfig ?gen False ?files [''app'', ''srv''] ''meditree.json''
          = (?files(?p \<mapsto> ?config), Inr ?config)"
    by (rule findConfig_existing [OF found content c(1)])
  have "snd (findConfig ?gen False ?files [''app'', ''srv''] ''meditree.json'') = Inr ?config"
    by (simp only: fc snd_conv)
  moreover have "fst (findConfig ?gen False ?files [''app'', ''srv''] ''meditree.json'') ?p
      = Some ?config"
    by (simp only: fc fst_conv fun_upd_same)
  ultimately show ?thesis using pub priv c by blast
qed

end
